theory Spec2Isabelle
  imports Main
begin

section \<open>JavaScript strings\<close>

text \<open>
  A JavaScript string is a sequence of UTF-16 code units; \<open>length\<close>, \<open>slice\<close>,
  \<open>startsWith\<close>, \<open>split\<close> and \<open>trim\<close> all work on code units. A string is
  therefore a list of code units, each a natural number. ASCII literals of the source are
  written \<open>js ''...''\<close>; the Japanese literals are given by their code units.
\<close>

type_synonym jsstring = "nat list"

definition js :: "string \<Rightarrow> jsstring" where
  "js s = map of_char s"

text \<open>
  \<open>WhiteSpace\<close> and \<open>LineTerminator\<close> of ECMAScript: what \<open>trim()\<close> strips and what
  \<open>\s\<close> matches.
\<close>

definition isWhiteSpace :: "nat \<Rightarrow> bool" where
  "isWhiteSpace c =
     (c = 0x09 \<or> c = 0x0A \<or> c = 0x0B \<or> c = 0x0C \<or> c = 0x0D \<or> c = 0x20 \<or> c = 0xA0
      \<or> c = 0x1680 \<or> (0x2000 \<le> c \<and> c \<le> 0x200A) \<or> c = 0x2028 \<or> c = 0x2029
      \<or> c = 0x202F \<or> c = 0x205F \<or> c = 0x3000 \<or> c = 0xFEFF)"

text \<open>\<open>\d\<close> without the unicode flag: the ten ASCII digits.\<close>

definition isDigit :: "nat \<Rightarrow> bool" where
  "isDigit c = (0x30 \<le> c \<and> c \<le> 0x39)"

definition trim :: "jsstring \<Rightarrow> jsstring" where
  "trim s = rev (dropWhile isWhiteSpace (rev (dropWhile isWhiteSpace s)))"

definition startsWith :: "jsstring \<Rightarrow> jsstring \<Rightarrow> bool" where
  "startsWith p s = (take (length p) s = p)"

text \<open>\<open>s.includes(sub)\<close>: \<open>sub\<close> occurs at some position of \<open>s\<close>.\<close>

fun includes_str :: "jsstring \<Rightarrow> jsstring \<Rightarrow> bool" where
  "includes_str sub [] = (sub = [])"
| "includes_str sub (c # cs) = (startsWith sub (c # cs) \<or> includes_str sub cs)"

text \<open>
  \<open>s.split(sep)\<close> for a non-empty separator (the source only splits on \<open>'\n'\<close>, \<open>':'\<close>
  and the two labels): the pieces between the successive non-overlapping occurrences of
  \<open>sep\<close>, scanned from the left; always at least one piece. \<open>cur\<close> is the piece being
  read.
\<close>

function split_from :: "jsstring \<Rightarrow> jsstring \<Rightarrow> jsstring \<Rightarrow> jsstring list" where
  "split_from sep cur [] = [cur]"
| "split_from sep cur (c # cs) =
     (if sep \<noteq> [] \<and> startsWith sep (c # cs)
      then cur # split_from sep [] (drop (length sep) (c # cs))
      else split_from sep (cur @ [c]) cs)"
  by pat_completeness auto
termination
  by (relation "measure (\<lambda>(sep, cur, s). length s)") auto

definition split :: "jsstring \<Rightarrow> jsstring \<Rightarrow> jsstring list" where
  "split sep s = split_from sep [] s"

text \<open>\<open>s.split(sep, limit)\<close>: the first \<open>limit\<close> pieces of the full split; the rest is dropped.\<close>

definition split_limit :: "jsstring \<Rightarrow> nat \<Rightarrow> jsstring \<Rightarrow> jsstring list" where
  "split_limit sep limit s = take limit (split sep s)"

text \<open>
  The test \<open>/^\d+\./\<close>: one or more digits at the start, then a dot. The greedy \<open>\d+\<close>
  takes every leading digit, and backtracking to fewer digits cannot help, since the next
  code unit would then be a digit and not the dot.
\<close>

definition numbered :: "jsstring \<Rightarrow> bool" where
  "numbered s = (takeWhile isDigit s \<noteq> [] \<and> startsWith (js ''.'') (dropWhile isDigit s))"

text \<open>\<open>s.replace(/^\d+\.\s*/, '')\<close>: the matched prefix is removed; no match, no change.\<close>

definition stripNumber :: "jsstring \<Rightarrow> jsstring" where
  "stripNumber s =
     (if numbered s then dropWhile isWhiteSpace (drop 1 (dropWhile isDigit s)) else s)"

text \<open>\<open>xs.join(sep)\<close>.\<close>

fun join :: "jsstring \<Rightarrow> jsstring list \<Rightarrow> jsstring" where
  "join sep [] = []"
| "join sep [x] = x"
| "join sep (x # y # ys) = x @ sep @ join sep (y # ys)"

text \<open>A string or \<open>undefined\<close> is truthy when it is a non-empty string.\<close>

fun truthy :: "jsstring option \<Rightarrow> bool" where
  "truthy None = False"
| "truthy (Some s) = (s \<noteq> [])"

section \<open>Generated records and the response parsers\<close>

record CampInfo =
  camp_name :: jsstring
  homepage_url :: "jsstring option"

text \<open>
  The Yaychi parser builds its records as \<open>Partial<YaychiInfo>\<close> and casts them, so each
  field can be absent at run time.
\<close>

record YaychiInfo =
  yaychi_name :: "jsstring option"
  spot :: "jsstring option"
  description :: "jsstring option"

record ItemInfo =
  item_name :: jsstring
  item_description :: jsstring

definition startsWith123 :: "jsstring \<Rightarrow> bool" where
  "startsWith123 line =
     (startsWith (js ''1.'') line \<or> startsWith (js ''2.'') line \<or> startsWith (js ''3.'') line)"

fun parseResponse_loop :: "jsstring list \<Rightarrow> CampInfo list \<Rightarrow> CampInfo list" where
  "parseResponse_loop [] result = result"
| "parseResponse_loop (l # ls) result =
     (let line = trim l in
      if length line > 0 \<and> startsWith123 line
      then parseResponse_loop ls
             (result @ [\<lparr>camp_name = trim (stripNumber line), homepage_url = None\<rparr>])
      else parseResponse_loop ls result)"

text \<open>
  The argument is \<open>res.choices[0].message.content\<close>, a string or absent;
  \<open>content?.split('\n') || []\<close> gives no line at all when it is absent.
\<close>

definition parseResponse :: "jsstring option \<Rightarrow> CampInfo list" where
  "parseResponse content =
     parseResponse_loop (case content of None \<Rightarrow> [] | Some c \<Rightarrow> split (js ''\<newline>'') c) []"

text \<open>The two labels, each ending in an ASCII colon: "osusume supotto:" and "tokuchou / chuuiten:".\<close>

definition spotLabel :: jsstring where
  "spotLabel = [0x304A, 0x3059, 0x3059, 0x3081, 0x30B9, 0x30DD, 0x30C3, 0x30C8, 0x3A]"

definition descriptionLabel :: jsstring where
  "descriptionLabel = [0x7279, 0x5FB4, 0x30FB, 0x6CE8, 0x610F, 0x70B9, 0x3A]"

text \<open>\<open>line.split(label)[1]?.trim() || ''\<close>.\<close>

definition afterLabel :: "jsstring \<Rightarrow> jsstring \<Rightarrow> jsstring" where
  "afterLabel label line = (case split label line of _ # p # _ \<Rightarrow> trim p | _ \<Rightarrow> [])"

definition emptyInfo :: YaychiInfo where
  "emptyInfo = \<lparr>yaychi_name = None, spot = None, description = None\<rparr>"

text \<open>The loop returns the records pushed so far and the record in progress.\<close>

fun parseYaychi_loop ::
  "jsstring list \<Rightarrow> YaychiInfo \<Rightarrow> YaychiInfo list \<Rightarrow> YaychiInfo list \<times> YaychiInfo" where
  "parseYaychi_loop [] currentInfo yaychiInfo = (yaychiInfo, currentInfo)"
| "parseYaychi_loop (l # ls) currentInfo yaychiInfo =
     (let trimmedLine = trim l in
      if startsWith123 trimmedLine
      then parseYaychi_loop ls
             \<lparr>yaychi_name = Some (trim (stripNumber trimmedLine)), spot = None, description = None\<rparr>
             (if truthy (yaychi_name currentInfo) then yaychiInfo @ [currentInfo] else yaychiInfo)
      else if includes_str spotLabel trimmedLine
      then parseYaychi_loop ls (currentInfo\<lparr>spot := Some (afterLabel spotLabel trimmedLine)\<rparr>)
             yaychiInfo
      else if includes_str descriptionLabel trimmedLine
      then parseYaychi_loop ls
             (currentInfo\<lparr>description := Some (afterLabel descriptionLabel trimmedLine)\<rparr>)
             yaychiInfo
      else parseYaychi_loop ls currentInfo yaychiInfo)"

definition parseYaychiResponse :: "jsstring \<Rightarrow> YaychiInfo list" where
  "parseYaychiResponse responseText =
     (case parseYaychi_loop (split (js ''\<newline>'') responseText) emptyInfo [] of
        (yaychiInfo, currentInfo) \<Rightarrow>
          take 3 (if truthy (yaychi_name currentInfo) then yaychiInfo @ [currentInfo]
                  else yaychiInfo))"

fun parseItem_loop :: "jsstring list \<Rightarrow> ItemInfo list \<Rightarrow> ItemInfo list" where
  "parseItem_loop [] items = items"
| "parseItem_loop (l # ls) items =
     (let trimmedLine = trim l in
      if numbered trimmedLine
      then (case split_limit (js '':'') 2 trimmedLine of
              [p0, p1] \<Rightarrow>
                parseItem_loop ls
                  (items @ [\<lparr>item_name = trim (stripNumber p0), item_description = trim p1\<rparr>])
            | _ \<Rightarrow> parseItem_loop ls items)
      else parseItem_loop ls items)"

definition parseItemResponse :: "jsstring \<Rightarrow> ItemInfo list" where
  "parseItemResponse responseText = parseItem_loop (split (js ''\<newline>'') responseText) []"

section \<open>Rich-card templates and the composers\<close>

text \<open>
  A template is a parsed JSON document, deep-cloned by \<open>JSON.parse(JSON.stringify(...))\<close>
  before it is filled in, so it is a tree without sharing and an assignment inside one
  bubble cannot reach another. Numbers are never inspected by the composers and stay
  abstract. An array carries, beside its elements, the named properties assigned to it
  (none after parsing). \<open>JUndefined\<close> is the value \<open>undefined\<close>, which a parsed document
  does not contain but which an absent record field writes into it.
\<close>

typedecl number

datatype json =
    JNull
  | JUndefined
  | JBool bool
  | JNum number
  | JStr jsstring
  | JArr "json list" "(jsstring \<times> json) list"
  | JObj "(jsstring \<times> json) list"

text \<open>
  What can be thrown: a TypeError of the language, a SyntaxError of \<open>JSON.parse\<close>, and the
  failure of a call to a service.
\<close>

datatype error = TypeError | SyntaxError | ServiceError

fun assoc_update :: "'k \<Rightarrow> 'v \<Rightarrow> ('k \<times> 'v) list \<Rightarrow> ('k \<times> 'v) list" where
  "assoc_update k v [] = [(k, v)]"
| "assoc_update k v ((k', v') # kvs) =
     (if k' = k then (k, v) # kvs else (k', v') # assoc_update k v kvs)"

definition lookup :: "(jsstring \<times> json) list \<Rightarrow> jsstring \<Rightarrow> json" where
  "lookup kvs k = (case map_of kvs k of Some v \<Rightarrow> v | None \<Rightarrow> JUndefined)"

text \<open>The decimal form of an array index, which is the property name it stands for.\<close>

function decimal :: "nat \<Rightarrow> jsstring" where
  "decimal n = (if n < 10 then [0x30 + n] else decimal (n div 10) @ [0x30 + n mod 10])"
  by pat_completeness auto
termination
  by (relation "measure id") auto

declare decimal.simps [simp del]

datatype key = Prop jsstring | Index nat

fun keyName :: "key \<Rightarrow> jsstring" where
  "keyName (Prop k) = k"
| "keyName (Index i) = decimal i"

text \<open>
  Reading \<open>v.k\<close> or \<open>v[i]\<close>, for the property names the composers use (\<open>body\<close>,
  \<open>contents\<close>, \<open>footer\<close>, \<open>action\<close>: none is inherited from a prototype, none is
  numeric). On \<open>null\<close> and \<open>undefined\<close> it throws a TypeError; on another primitive it
  gives \<open>undefined\<close>, or the code unit at the index of a string.
\<close>

fun getMember :: "key \<Rightarrow> json \<Rightarrow> error + json" where
  "getMember k JNull = Inl TypeError"
| "getMember k JUndefined = Inl TypeError"
| "getMember k (JBool b) = Inr JUndefined"
| "getMember k (JNum n) = Inr JUndefined"
| "getMember (Prop k) (JStr s) = Inr JUndefined"
| "getMember (Index i) (JStr s) = Inr (if i < length s then JStr [s ! i] else JUndefined)"
| "getMember (Prop k) (JArr xs ps) = Inr (lookup ps k)"
| "getMember (Index i) (JArr xs ps) = Inr (if i < length xs then xs ! i else JUndefined)"
| "getMember k (JObj kvs) = Inr (lookup kvs (keyName k))"

text \<open>
  The assignment \<open>target.k = x\<close>. The source is an ECMAScript module, hence strict code:
  assigning a property of a primitive throws a TypeError, as it does on \<open>null\<close> and
  \<open>undefined\<close>.
\<close>

fun setProp :: "jsstring \<Rightarrow> json \<Rightarrow> json \<Rightarrow> error + json" where
  "setProp k x (JObj kvs) = Inr (JObj (assoc_update k x kvs))"
| "setProp k x (JArr xs ps) = Inr (JArr xs (assoc_update k x ps))"
| "setProp k x v = Inl TypeError"

text \<open>
  The object \<open>child\<close> reached through \<open>v.k\<close> or \<open>v[i]\<close> was mutated in place; in the tree
  this is the parent with that member replaced. A primitive has no member to mutate.
\<close>

fun putMember :: "key \<Rightarrow> json \<Rightarrow> json \<Rightarrow> json" where
  "putMember k child (JObj kvs) = JObj (assoc_update (keyName k) child kvs)"
| "putMember (Index i) child (JArr xs ps) = JArr (xs[i := child]) ps"
| "putMember (Prop k) child (JArr xs ps) = JArr xs (assoc_update k child ps)"
| "putMember k child v = v"

text \<open>\<open>v.p1.p2...pn.k = x\<close>: the path is read from the left, then the property is assigned.\<close>

fun assignAt :: "key list \<Rightarrow> jsstring \<Rightarrow> json \<Rightarrow> json \<Rightarrow> error + json" where
  "assignAt [] k x v = setProp k x v"
| "assignAt (p # ps) k x v =
     (case getMember p v of
        Inl e \<Rightarrow> Inl e
      | Inr child \<Rightarrow>
          (case assignAt ps k x child of
             Inl e \<Rightarrow> Inl e
           | Inr child' \<Rightarrow> Inr (putMember p child' v)))"

text \<open>Reading a whole path, as a caller of the composer would.\<close>

fun getPath :: "key list \<Rightarrow> json \<Rightarrow> error + json" where
  "getPath [] v = Inr v"
| "getPath (p # ps) v = (case getMember p v of Inl e \<Rightarrow> Inl e | Inr child \<Rightarrow> getPath ps child)"

text \<open>
  Modelled from the spec: the template documents \<open>flex/camp.json\<close> and \<open>flex/yaychi.json\<close>
  are not among the sources. A template is an ordered list of bubble structures: a JSON
  object whose \<open>contents\<close> is an array of bubbles, beside its other properties.
\<close>

record Template =
  template_contents :: "json list"
  template_rest :: "(jsstring \<times> json) list"

record FlexMessage =
  altText :: jsstring
  flex_contents :: Template

text \<open>
  \<open>records.forEach((r, index) => { if (index < template.contents.length) { ... } })\<close>,
  where \<open>fill r bubble\<close> is the body of the \<open>if\<close>, mutating the bubble at \<open>index\<close>.
\<close>

fun forEach_fill ::
  "('a \<Rightarrow> json \<Rightarrow> error + json) \<Rightarrow> 'a list \<Rightarrow> nat \<Rightarrow> json list \<Rightarrow> error + json list" where
  "forEach_fill fill [] index bubbles = Inr bubbles"
| "forEach_fill fill (r # rs) index bubbles =
     (if index < length bubbles
      then (case fill r (bubbles ! index) of
              Inl e \<Rightarrow> Inl e
            | Inr b \<Rightarrow> forEach_fill fill rs (Suc index) (bubbles[index := b]))
      else forEach_fill fill rs (Suc index) bubbles)"

definition campTitlePath :: "key list" where
  "campTitlePath = [Prop (js ''body''), Prop (js ''contents''), Index 0]"

definition campLinkPath :: "key list" where
  "campLinkPath =
     [Prop (js ''footer''), Prop (js ''contents''), Index 0, Prop (js ''contents''), Index 0,
      Prop (js ''action'')]"

definition fillCamp :: "CampInfo \<Rightarrow> json \<Rightarrow> error + json" where
  "fillCamp camp bubble =
     (case assignAt campTitlePath (js ''text'') (JStr (camp_name camp)) bubble of
        Inl e \<Rightarrow> Inl e
      | Inr b \<Rightarrow>
          (case homepage_url camp of
             None \<Rightarrow> Inr b
           | Some url \<Rightarrow>
               if url \<noteq> [] then assignAt campLinkPath (js ''uri'') (JStr url) b else Inr b))"

text \<open>"kyanpu-jou jouhou" (camp site information).\<close>

definition campAltText :: jsstring where
  "campAltText = [0x30AD, 0x30E3, 0x30F3, 0x30D7, 0x5834, 0x60C5, 0x5831]"

definition createCampFlexMessage :: "Template \<Rightarrow> CampInfo list \<Rightarrow> error + FlexMessage" where
  "createCampFlexMessage flexCamp campInfo =
     (case forEach_fill fillCamp campInfo 0 (template_contents flexCamp) of
        Inl e \<Rightarrow> Inl e
      | Inr bubbles \<Rightarrow>
          Inr \<lparr>altText = campAltText, flex_contents = flexCamp\<lparr>template_contents := bubbles\<rparr>\<rparr>)"

fun toJson :: "jsstring option \<Rightarrow> json" where
  "toJson None = JUndefined"
| "toJson (Some s) = JStr s"

definition yaychiTitlePath :: "key list" where
  "yaychiTitlePath = [Prop (js ''body''), Prop (js ''contents''), Index 0]"

definition yaychiSpotPath :: "key list" where
  "yaychiSpotPath =
     [Prop (js ''body''), Prop (js ''contents''), Index 1, Prop (js ''contents''), Index 0,
      Prop (js ''contents''), Index 1]"

definition yaychiDescriptionPath :: "key list" where
  "yaychiDescriptionPath =
     [Prop (js ''body''), Prop (js ''contents''), Index 1, Prop (js ''contents''), Index 1,
      Prop (js ''contents''), Index 1]"

definition fillYaychi :: "YaychiInfo \<Rightarrow> json \<Rightarrow> error + json" where
  "fillYaychi info bubble =
     (case assignAt yaychiTitlePath (js ''text'') (toJson (yaychi_name info)) bubble of
        Inl e \<Rightarrow> Inl e
      | Inr b1 \<Rightarrow>
          (case assignAt yaychiSpotPath (js ''text'') (toJson (spot info)) b1 of
             Inl e \<Rightarrow> Inl e
           | Inr b2 \<Rightarrow>
               assignAt yaychiDescriptionPath (js ''text'') (toJson (description info)) b2))"

text \<open>"yaeichi jouhou" (bivouac site information).\<close>

definition yaychiAltText :: jsstring where
  "yaychiAltText = [0x91CE, 0x55B6, 0x5730, 0x60C5, 0x5831]"

definition createYaychiFlexMessage :: "Template \<Rightarrow> YaychiInfo list \<Rightarrow> error + FlexMessage" where
  "createYaychiFlexMessage flexYaychi yaychiInfo =
     (case forEach_fill fillYaychi yaychiInfo 0 (template_contents flexYaychi) of
        Inl e \<Rightarrow> Inl e
      | Inr bubbles \<Rightarrow>
          Inr \<lparr>altText = yaychiAltText,
               flex_contents = flexYaychi\<lparr>template_contents := bubbles\<rparr>\<rparr>)"

section \<open>The fixed texts\<close>

text \<open>"Thank you for adding me as a friend", then the rocket emoji (a surrogate pair).\<close>

definition welcomeText :: jsstring where
  "welcomeText = [0x53CB, 0x9054, 0x8FFD, 0x52A0, 0x3042, 0x308A, 0x304C, 0x3068, 0x3046,
   0x3054, 0x3056, 0x3044, 0x307E, 0x3059, 0xD83D, 0xDE80]"

text \<open>The menu phrase of the camp flow.\<close>

definition campTrigger :: jsstring where
  "campTrigger = [0x304D, 0x3083, 0x3093, 0x3077, 0x5834, 0x8ABF, 0x3079]"

text \<open>The menu phrase of the bivouac (yaychi) flow.\<close>

definition yaychiTrigger :: jsstring where
  "yaychiTrigger = [0x91CE, 0x55B6, 0x5730, 0x8ABF, 0x3079]"

text \<open>The menu phrase of the item flow.\<close>

definition itemsTrigger :: jsstring where
  "itemsTrigger = [0x6301, 0x3061, 0x7269, 0x63D0, 0x6848]"

text \<open>"Please tell me the region you want to look up."\<close>

definition regionPrompt :: jsstring where
  "regionPrompt = [0x8ABF, 0x3079, 0x305F, 0x3044, 0x5730, 0x57DF, 0x3092, 0x6559, 0x3048,
   0x3066, 0x304F, 0x3060, 0x3055, 0x3044, 0x3002]"

text \<open>"Please tell me the prefecture where you want to bivouac."\<close>

definition prefecturePrompt :: jsstring where
  "prefecturePrompt = [0x91CE, 0x55B6, 0x3057, 0x305F, 0x3044, 0x90FD, 0x9053, 0x5E9C,
   0x770C, 0x3092, 0x6559, 0x3048, 0x3066, 0x304F, 0x3060, 0x3055, 0x3044, 0x3002]"

text \<open>"Please tell me where you are going."\<close>

definition locationPrompt :: jsstring where
  "locationPrompt = [0x884C, 0x304F, 0x5834, 0x6240, 0x3092, 0x6559, 0x3048, 0x3066, 0x304F,
   0x3060, 0x3055, 0x3044, 0x3002]"

text \<open>"Please tell me the date you want to go."\<close>

definition datePrompt :: jsstring where
  "datePrompt = [0x884C, 0x304D, 0x305F, 0x3044, 0x65E5, 0x306B, 0x3061, 0x3092, 0x6559,
   0x3048, 0x3066, 0x304F, 0x3060, 0x3055, 0x3044, 0x3002]"

text \<open>"Do you have any conditions? (e.g. pets allowed, hot spring, ...)"\<close>

definition campConditionsPrompt :: jsstring where
  "campConditionsPrompt = [0x5E0C, 0x671B, 0x3059, 0x308B, 0x6761, 0x4EF6, 0x306F, 0x3042,
   0x308A, 0x307E, 0x3059, 0x304B, 0xFF1F, 0xFF08, 0x4F8B, 0xFF1A, 0x30DA, 0x30C3, 0x30C8,
   0x004F, 0x004B, 0x3001, 0x6E29, 0x6CC9, 0x3042, 0x308A, 0x3001, 0x306A, 0x3069, 0xFF09]"

text \<open>"Do you have any conditions? (e.g. near a river, in the mountains, ...)"\<close>

definition yaychiConditionsPrompt :: jsstring where
  "yaychiConditionsPrompt = [0x5E0C, 0x671B, 0x3059, 0x308B, 0x6761, 0x4EF6, 0x306F, 0x3042,
   0x308A, 0x307E, 0x3059, 0x304B, 0xFF1F, 0xFF08, 0x4F8B, 0xFF1A, 0x5DDD, 0x306E, 0x8FD1,
   0x304F, 0x3001, 0x5C71, 0x306E, 0x4E2D, 0x3001, 0x306A, 0x3069, 0xFF09]"

text \<open>"Please tell me the length of your stay."\<close>

definition durationPrompt :: jsstring where
  "durationPrompt = [0x6EDE, 0x5728, 0x671F, 0x9593, 0x3092, 0x6559, 0x3048, 0x3066, 0x304F,
   0x3060, 0x3055, 0x3044, 0x3002]"

text \<open>"Please tell me any other special conditions. (e.g. possible rain, with children, ...)"\<close>

definition itemConditionsPrompt :: jsstring where
  "itemConditionsPrompt = [0x305D, 0x306E, 0x4ED6, 0x306E, 0x7279, 0x5225, 0x306A, 0x6761,
   0x4EF6, 0x304C, 0x3042, 0x308C, 0x3070, 0x6559, 0x3048, 0x3066, 0x304F, 0x3060, 0x3055,
   0x3044, 0x3002, 0xFF08, 0x4F8B, 0xFF1A, 0x96E8, 0x306E, 0x53EF, 0x80FD, 0x6027, 0x304C,
   0x3042, 0x308B, 0x3001, 0x5B50, 0x4F9B, 0x9023, 0x308C, 0x3001, 0x306A, 0x3069, 0xFF09]"

text \<open>"Sorry. The camp site information could not be obtained."\<close>

definition campNotFound :: jsstring where
  "campNotFound = [0x7533, 0x3057, 0x8A33, 0x3042, 0x308A, 0x307E, 0x305B, 0x3093, 0x3002,
   0x30AD, 0x30E3, 0x30F3, 0x30D7, 0x5834, 0x306E, 0x60C5, 0x5831, 0x3092, 0x53D6, 0x5F97,
   0x3067, 0x304D, 0x307E, 0x305B, 0x3093, 0x3067, 0x3057, 0x305F, 0x3002]"

text \<open>"I found the following camp sites!"\<close>

definition campFound :: jsstring where
  "campFound = [0x4EE5, 0x4E0B, 0x306E, 0x30AD, 0x30E3, 0x30F3, 0x30D7, 0x5834, 0x3092,
   0x898B, 0x3064, 0x3051, 0x307E, 0x3057, 0x305F, 0xFF01]"

text \<open>"The detailed information could not be obtained."\<close>

definition detailFallback :: jsstring where
  "detailFallback = [0x8A73, 0x7D30, 0x60C5, 0x5831, 0x3092, 0x53D6, 0x5F97, 0x3067, 0x304D,
   0x307E, 0x305B, 0x3093, 0x3067, 0x3057, 0x305F, 0x3002]"

text \<open>"An error occurred while obtaining the camp site information."\<close>

definition campError :: jsstring where
  "campError = [0x30AD, 0x30E3, 0x30F3, 0x30D7, 0x5834, 0x306E, 0x60C5, 0x5831, 0x53D6,
   0x5F97, 0x4E2D, 0x306B, 0x30A8, 0x30E9, 0x30FC, 0x304C, 0x767A, 0x751F, 0x3057, 0x307E,
   0x3057, 0x305F, 0x3002]"

text \<open>"Sorry. The bivouac site information could not be obtained."\<close>

definition yaychiNotFound :: jsstring where
  "yaychiNotFound = [0x7533, 0x3057, 0x8A33, 0x3042, 0x308A, 0x307E, 0x305B, 0x3093, 0x3002,
   0x91CE, 0x55B6, 0x5730, 0x306E, 0x60C5, 0x5831, 0x3092, 0x53D6, 0x5F97, 0x3067, 0x304D,
   0x307E, 0x305B, 0x3093, 0x3067, 0x3057, 0x305F, 0x3002]"

text \<open>"An error occurred while obtaining the bivouac site information."\<close>

definition yaychiError :: jsstring where
  "yaychiError = [0x91CE, 0x55B6, 0x5730, 0x306E, 0x60C5, 0x5831, 0x53D6, 0x5F97, 0x4E2D,
   0x306B, 0x30A8, 0x30E9, 0x30FC, 0x304C, 0x767A, 0x751F, 0x3057, 0x307E, 0x3057, 0x305F,
   0x3002]"

text \<open>"Sorry. The item information could not be obtained."\<close>

definition itemsNotFound :: jsstring where
  "itemsNotFound = [0x7533, 0x3057, 0x8A33, 0x3042, 0x308A, 0x307E, 0x305B, 0x3093, 0x3002,
   0x6301, 0x3061, 0x7269, 0x306E, 0x60C5, 0x5831, 0x3092, 0x53D6, 0x5F97, 0x3067, 0x304D,
   0x307E, 0x305B, 0x3093, 0x3067, 0x3057, 0x305F, 0x3002]"

text \<open>"An error occurred while obtaining the item information."\<close>

definition itemsError :: jsstring where
  "itemsError = [0x6301, 0x3061, 0x7269, 0x306E, 0x60C5, 0x5831, 0x53D6, 0x5F97, 0x4E2D,
   0x306B, 0x30A8, 0x30E9, 0x30FC, 0x304C, 0x767A, 0x751F, 0x3057, 0x307E, 0x3057, 0x305F,
   0x3002]"

text \<open>"Sorry, I could not answer well."\<close>

definition generalFallback :: jsstring where
  "generalFallback = [0x3059, 0x307F, 0x307E, 0x305B, 0x3093, 0x3001, 0x3046, 0x307E,
   0x304F, 0x56DE, 0x7B54, 0x3067, 0x304D, 0x307E, 0x305B, 0x3093, 0x3067, 0x3057, 0x305F,
   0x3002]"

text \<open>"Sorry, an error occurred. Please try again."\<close>

definition generalError :: jsstring where
  "generalError = [0x3059, 0x307F, 0x307E, 0x305B, 0x3093, 0x3001, 0x30A8, 0x30E9, 0x30FC,
   0x304C, 0x767A, 0x751F, 0x3057, 0x307E, 0x3057, 0x305F, 0x3002, 0x3082, 0x3046, 0x4E00,
   0x5EA6, 0x304A, 0x8A66, 0x3057, 0x304F, 0x3060, 0x3055, 0x3044, 0x3002]"

text \<open>The ideographic comma joining the camp names.\<close>

definition nameSeparator :: jsstring where
  "nameSeparator = [0x3001]"

text \<open>The acknowledgment of the camp action: "Looking up camp sites in <region> for <date> with the conditions <conditions>..."\<close>

definition campAck :: "jsstring \<Rightarrow> jsstring \<Rightarrow> jsstring \<Rightarrow> jsstring" where
  "campAck region date conditions = region @ [0x306E] @ date @ [0x306B, 0x884C, 0x304D,
   0x305F, 0x3044, 0x30AD, 0x30E3, 0x30F3, 0x30D7, 0x5834, 0x3092, 0x3001, 0x6761, 0x4EF6,
   0x300C] @ conditions @ [0x300D, 0x3067, 0x8ABF, 0x3079, 0x3066, 0x3044, 0x307E, 0x3059,
   0x002E, 0x002E, 0x002E]"

text \<open>The acknowledgment of the bivouac action.\<close>

definition yaychiAck :: "jsstring \<Rightarrow> jsstring \<Rightarrow> jsstring" where
  "yaychiAck prefecture conditions = prefecture @ [0x3067, 0x3001, 0x6761, 0x4EF6, 0x300C] @
   conditions @ [0x300D, 0x306B, 0x5408, 0x3046, 0x91CE, 0x55B6, 0x304C, 0x3067, 0x304D,
   0x308B, 0x5834, 0x6240, 0x3092, 0x8ABF, 0x3079, 0x3066, 0x3044, 0x307E, 0x3059, 0x002E,
   0x002E, 0x002E]"

text \<open>"Places where you can bivouac in <prefecture> were found!"\<close>

definition yaychiFound :: "jsstring \<Rightarrow> jsstring" where
  "yaychiFound prefecture = prefecture @ [0x3067, 0x91CE, 0x55B6, 0x53EF, 0x80FD, 0x306A,
   0x5834, 0x6240, 0x304C, 0x898B, 0x3064, 0x304B, 0x308A, 0x307E, 0x3057, 0x305F, 0xFF01]"

text \<open>The acknowledgment of the item action.\<close>

definition itemsAck :: "jsstring \<Rightarrow> jsstring \<Rightarrow> jsstring \<Rightarrow> jsstring" where
  "itemsAck location duration conditions = location @ [0x306B] @ duration @ [0x306E, 0x671F,
   0x9593, 0x3067, 0x884C, 0x304F, 0x969B, 0x306E, 0x6301, 0x3061, 0x7269, 0x3092, 0x3001,
   0x6761, 0x4EF6, 0x300C] @ conditions @ [0x300D, 0x3067, 0x63D0, 0x6848, 0x3057, 0x307E,
   0x3059, 0x002E, 0x002E, 0x002E]"

text \<open>One line of the item list.\<close>

definition itemLine :: "jsstring \<Rightarrow> jsstring \<Rightarrow> jsstring" where
  "itemLine name desc = [0x002D, 0x0020] @ name @ [0x003A, 0x0020] @ desc"

text \<open>"I recommend the following items:", an empty line, then the list.\<close>

definition itemsHeader :: "jsstring \<Rightarrow> jsstring" where
  "itemsHeader itemList = [0x4EE5, 0x4E0B, 0x306E, 0x6301, 0x3061, 0x7269, 0x3092, 0x304A,
   0x3059, 0x3059, 0x3081, 0x3057, 0x307E, 0x3059, 0xFF1A, 0x000A, 0x000A] @ itemList"

text \<open>"Recommended product for <name>:", a line break, then the completion.\<close>

definition itemRecommendation :: "jsstring \<Rightarrow> jsstring \<Rightarrow> jsstring" where
  "itemRecommendation name content = name @ [0x306E, 0x304A, 0x3059, 0x3059, 0x3081, 0x5546,
   0x54C1, 0xFF1A, 0x000A] @ content"

text \<open>\<open>a || b\<close> on a completion: the fallback replaces an absent or empty content.\<close>

fun orElse :: "jsstring option \<Rightarrow> jsstring \<Rightarrow> jsstring" where
  "orElse None d = d"
| "orElse (Some s) d = (if s = [] then d else s)"

text \<open>A completion content (a string or \<open>null\<close>) inside a template literal.\<close>

fun interpolateContent :: "jsstring option \<Rightarrow> jsstring" where
  "interpolateContent None = js ''null''"
| "interpolateContent (Some s) = s"

section \<open>The user store, the services and the trace of calls\<close>

text \<open>
  A collected field, as \<open>getStateData\<close> can return it: a string, or the empty object that
  \<open>getStateData(uid, key)\<close> returns when the item has no data. The \<open>data\<close> attribute holds
  \<open>JSON.stringify\<close> of an object of such fields and is read back with \<open>JSON.parse\<close>; the
  pair is the identity on these objects once the undefined properties are dropped, so the
  item holds the object itself.
\<close>

datatype field = Text jsstring | EmptyObject

type_synonym fields = "(jsstring \<times> field) list"

text \<open>\<open>JSON.stringify\<close> leaves out the properties whose value is \<open>undefined\<close>.\<close>

fun stringify :: "(jsstring \<times> field option) list \<Rightarrow> fields" where
  "stringify [] = []"
| "stringify ((k, None) # kvs) = stringify kvs"
| "stringify ((k, Some v) # kvs) = (k, v) # stringify kvs"

text \<open>A field or \<open>undefined\<close> inside a template literal.\<close>

fun interpolate :: "field option \<Rightarrow> jsstring" where
  "interpolate None = js ''undefined''"
| "interpolate (Some (Text s)) = s"
| "interpolate (Some EmptyObject) = js ''[object Object]''"

text \<open>An item of the table \<open>Users\<close>, beside its key \<open>userId\<close>.\<close>

record Item =
  item_state :: "jsstring option"
  item_data :: "fields option"

type_synonym uid = jsstring
type_synonym token = jsstring

text \<open>
  A generation request is one of six fixed prompt templates; it is kept as the template's
  tag with the strings interpolated into it.
\<close>

datatype prompt =
    CampSearchPrompt jsstring jsstring jsstring
  | CampDetailPrompt jsstring
  | YaychiSearchPrompt jsstring jsstring
  | ItemListPrompt jsstring jsstring jsstring
  | ItemSearchPrompt jsstring
  | GeneralPrompt jsstring

datatype message = TextMessage jsstring | Flex FlexMessage

datatype call =
    PutItem uid Item
  | GetItem uid
  | ReplyMessage token message
  | PushMessage uid message
  | ChatCompletion prompt

text \<open>
  The world is the table and the calls made so far, oldest first, each with whether it
  completed. \<open>PutItem\<close> replaces the whole item stored under the key.
\<close>

record world =
  users :: "uid \<Rightarrow> Item option"
  trace :: "(call \<times> bool) list"

text \<open>
  What lies outside the program: whether the \<open>n\<close>-th call made to a service (the store,
  the messaging gateway, the generation service) throws, the content of the completion
  when that call is a generation request (absent when \<open>null\<close>), and the two templates.
\<close>

record env =
  fails :: "nat \<Rightarrow> bool"
  completion :: "nat \<Rightarrow> jsstring option"
  flexCamp :: Template
  flexYaychi :: Template

text \<open>An asynchronous function: from a world to a value or an exception, and the new world.\<close>

type_synonym 'a io = "world \<Rightarrow> (error + 'a) \<times> world"

definition return_io :: "'a \<Rightarrow> 'a io" where
  "return_io x w = (Inr x, w)"

definition throw_io :: "error \<Rightarrow> 'a io" where
  "throw_io e w = (Inl e, w)"

text \<open>\<open>const x = await m; f x\<close>: an exception of \<open>m\<close> skips \<open>f\<close>.\<close>

definition bind_io :: "'a io \<Rightarrow> ('a \<Rightarrow> 'b io) \<Rightarrow> 'b io" where
  "bind_io m f w = (case m w of (Inl e, w') \<Rightarrow> (Inl e, w') | (Inr x, w') \<Rightarrow> f x w')"

text \<open>\<open>await m; n\<close>.\<close>

definition seq_io :: "unit io \<Rightarrow> 'a io \<Rightarrow> 'a io" where
  "seq_io m n = bind_io m (\<lambda>_. n)"

text \<open>\<open>try { m } catch (error) { h }\<close>.\<close>

definition try_catch :: "'a io \<Rightarrow> (error \<Rightarrow> 'a io) \<Rightarrow> 'a io" where
  "try_catch m h w = (case m w of (Inl e, w') \<Rightarrow> h e w' | (Inr x, w') \<Rightarrow> (Inr x, w'))"

text \<open>A call to a service is recorded, and throws when the environment says so.\<close>

definition invoke :: "env \<Rightarrow> call \<Rightarrow> unit io" where
  "invoke ev c w =
     (if fails ev (length (trace w))
      then (Inl ServiceError, w\<lparr>trace := trace w @ [(c, False)]\<rparr>)
      else (Inr (), w\<lparr>trace := trace w @ [(c, True)]\<rparr>))"

definition putItem :: "env \<Rightarrow> uid \<Rightarrow> Item \<Rightarrow> unit io" where
  "putItem ev uid item =
     seq_io (invoke ev (PutItem uid item))
       (\<lambda>w. (Inr (), w\<lparr>users := (users w)(uid \<mapsto> item)\<rparr>))"

definition getItem :: "env \<Rightarrow> uid \<Rightarrow> Item option io" where
  "getItem ev uid = seq_io (invoke ev (GetItem uid)) (\<lambda>w. (Inr (users w uid), w))"

text \<open>
  \<open>openai.chat.completions.create\<close> followed by the read of
  \<open>choices[0].message.content\<close>: a rejected request and a response without a first choice
  both throw, and in every caller the read is inside the same \<open>try\<close> block as the request.
\<close>

definition chat :: "env \<Rightarrow> prompt \<Rightarrow> jsstring option io" where
  "chat ev p w =
     (case invoke ev (ChatCompletion p) w of
        (Inl e, w') \<Rightarrow> (Inl e, w')
      | (Inr _, w') \<Rightarrow> (Inr (completion ev (length (trace w))), w'))"

definition reply :: "env \<Rightarrow> token \<Rightarrow> message \<Rightarrow> unit io" where
  "reply ev replyToken message = invoke ev (ReplyMessage replyToken message)"

text \<open>The pieces of at most 5000 code units; the empty text has none.\<close>

function chunks :: "jsstring \<Rightarrow> jsstring list" where
  "chunks text = (if text = [] then [] else take 5000 text # chunks (drop 5000 text))"
  by pat_completeness auto
termination
  by (relation "measure length") auto

declare chunks.simps [simp del]

fun pushEach :: "env \<Rightarrow> uid \<Rightarrow> jsstring list \<Rightarrow> unit io" where
  "pushEach ev uid [] = return_io ()"
| "pushEach ev uid (m # ms) =
     seq_io (invoke ev (PushMessage uid (TextMessage m))) (pushEach ev uid ms)"

definition pushMessage :: "env \<Rightarrow> uid \<Rightarrow> jsstring \<Rightarrow> unit io" where
  "pushMessage ev uid text = pushEach ev uid (chunks text)"

definition pushFlexMessage :: "env \<Rightarrow> uid \<Rightarrow> FlexMessage \<Rightarrow> unit io" where
  "pushFlexMessage ev uid flexMessage = invoke ev (PushMessage uid (Flex flexMessage))"

definition saveUserId :: "env \<Rightarrow> uid \<Rightarrow> unit io" where
  "saveUserId ev uid = putItem ev uid \<lparr>item_state = None, item_data = None\<rparr>"

definition getState :: "env \<Rightarrow> uid \<Rightarrow> jsstring option io" where
  "getState ev uid =
     bind_io (getItem ev uid)
       (\<lambda>res. return_io (case res of None \<Rightarrow> None | Some item \<Rightarrow> item_state item))"

definition putState :: "env \<Rightarrow> uid \<Rightarrow> jsstring \<Rightarrow> unit io" where
  "putState ev uid state = putItem ev uid \<lparr>item_state = Some state, item_data = None\<rparr>"

definition putStateWithData ::
  "env \<Rightarrow> uid \<Rightarrow> jsstring \<Rightarrow> (jsstring \<times> field option) list \<Rightarrow> unit io" where
  "putStateWithData ev uid state data =
     putItem ev uid \<lparr>item_state = Some state, item_data = Some (stringify data)\<rparr>"

text \<open>
  \<open>getStateData(uid)\<close>, without a key: the whole object, or \<open>{}\<close> when the item has no
  data.
\<close>

definition getStateData :: "env \<Rightarrow> uid \<Rightarrow> fields io" where
  "getStateData ev uid =
     bind_io (getItem ev uid)
       (\<lambda>res. return_io
          (case res of
             None \<Rightarrow> []
           | Some item \<Rightarrow> (case item_data item of None \<Rightarrow> [] | Some data \<Rightarrow> data)))"

text \<open>
  \<open>getStateData(uid, key)\<close>: the field under the key, \<open>undefined\<close> when the object has
  none, and the empty object \<open>{}\<close> when the item has no data at all.
\<close>

definition getStateData_key :: "env \<Rightarrow> uid \<Rightarrow> jsstring \<Rightarrow> field option io" where
  "getStateData_key ev uid k =
     bind_io (getItem ev uid)
       (\<lambda>res. return_io
          (case res of
             None \<Rightarrow> Some EmptyObject
           | Some item \<Rightarrow>
               (case item_data item of
                  None \<Rightarrow> Some EmptyObject
                | Some data \<Rightarrow> map_of data k)))"

definition clearState :: "env \<Rightarrow> uid \<Rightarrow> unit io" where
  "clearState ev uid = putItem ev uid \<lparr>item_state = None, item_data = None\<rparr>"

section \<open>The terminal actions\<close>

definition handleGeneralMessage :: "env \<Rightarrow> token \<Rightarrow> jsstring \<Rightarrow> unit io" where
  "handleGeneralMessage ev replyToken text =
     try_catch
       (bind_io (chat ev (GeneralPrompt text))
          (\<lambda>content. reply ev replyToken (TextMessage (orElse content generalFallback))))
       (\<lambda>error. reply ev replyToken (TextMessage generalError))"

text \<open>The \<open>try\<close> block of \<open>handleCampInfo\<close>.\<close>

definition handleCampInfo_try ::
  "env \<Rightarrow> uid \<Rightarrow> field option \<Rightarrow> field option \<Rightarrow> jsstring \<Rightarrow> unit io" where
  "handleCampInfo_try ev uid region date conditions =
     bind_io (chat ev (CampSearchPrompt (interpolate region) (interpolate date) conditions))
       (\<lambda>content.
          let campInfo = parseResponse content in
          if campInfo = [] then pushMessage ev uid campNotFound
          else (case createCampFlexMessage (flexCamp ev) campInfo of
                  Inl e \<Rightarrow> throw_io e
                | Inr flexMessage \<Rightarrow>
                    seq_io (pushMessage ev uid campFound)
                      (seq_io (pushFlexMessage ev uid flexMessage)
                         (bind_io
                            (chat ev
                               (CampDetailPrompt (join nameSeparator (map camp_name campInfo))))
                            (\<lambda>detail. pushMessage ev uid (orElse detail detailFallback))))))"

text \<open>
  The fields read from the store reach the action as they are: a string, the empty object
  or \<open>undefined\<close>; the conditions are the text of the message.
\<close>

definition handleCampInfo ::
  "env \<Rightarrow> uid \<Rightarrow> token \<Rightarrow> field option \<Rightarrow> field option \<Rightarrow> jsstring \<Rightarrow> unit io" where
  "handleCampInfo ev uid replyToken region date conditions =
     seq_io
       (reply ev replyToken
          (TextMessage (campAck (interpolate region) (interpolate date) conditions)))
       (try_catch (handleCampInfo_try ev uid region date conditions)
          (\<lambda>error. pushMessage ev uid campError))"

text \<open>The \<open>try\<close> block of \<open>handleYaychiInfo\<close>.\<close>

definition handleYaychiInfo_try :: "env \<Rightarrow> uid \<Rightarrow> field option \<Rightarrow> jsstring \<Rightarrow> unit io" where
  "handleYaychiInfo_try ev uid prefecture conditions =
     bind_io (chat ev (YaychiSearchPrompt (interpolate prefecture) conditions))
       (\<lambda>content.
          let yaychiInfo = parseYaychiResponse (orElse content []) in
          if yaychiInfo = [] then pushMessage ev uid yaychiNotFound
          else (case createYaychiFlexMessage (flexYaychi ev) yaychiInfo of
                  Inl e \<Rightarrow> throw_io e
                | Inr flexMessage \<Rightarrow>
                    seq_io (pushMessage ev uid (yaychiFound (interpolate prefecture)))
                      (pushFlexMessage ev uid flexMessage)))"

definition handleYaychiInfo ::
  "env \<Rightarrow> uid \<Rightarrow> token \<Rightarrow> field option \<Rightarrow> jsstring \<Rightarrow> unit io" where
  "handleYaychiInfo ev uid replyToken prefecture conditions =
     seq_io
       (reply ev replyToken (TextMessage (yaychiAck (interpolate prefecture) conditions)))
       (try_catch (handleYaychiInfo_try ev uid prefecture conditions)
          (\<lambda>error. pushMessage ev uid yaychiError))"

text \<open>The loop over \<open>items.slice(0, 3)\<close>: one generation request and one push per item.\<close>

fun recommendEach :: "env \<Rightarrow> uid \<Rightarrow> ItemInfo list \<Rightarrow> unit io" where
  "recommendEach ev uid [] = return_io ()"
| "recommendEach ev uid (item # rest) =
     bind_io (chat ev (ItemSearchPrompt (item_name item)))
       (\<lambda>content.
          seq_io
            (pushMessage ev uid (itemRecommendation (item_name item) (interpolateContent content)))
            (recommendEach ev uid rest))"

text \<open>The \<open>try\<close> block of \<open>handleItemSuggestion\<close>.\<close>

definition handleItemSuggestion_try ::
  "env \<Rightarrow> uid \<Rightarrow> field option \<Rightarrow> field option \<Rightarrow> jsstring \<Rightarrow> unit io" where
  "handleItemSuggestion_try ev uid location duration conditions =
     bind_io
       (chat ev (ItemListPrompt (interpolate location) (interpolate duration) conditions))
       (\<lambda>content.
          let items = parseItemResponse (orElse content []) in
          if items = [] then pushMessage ev uid itemsNotFound
          else let itemList =
                     join (js ''\<newline>'')
                       (map (\<lambda>item. itemLine (item_name item) (item_description item)) items)
               in seq_io (pushMessage ev uid (itemsHeader itemList))
                    (recommendEach ev uid (take 3 items)))"

definition handleItemSuggestion ::
  "env \<Rightarrow> uid \<Rightarrow> token \<Rightarrow> field option \<Rightarrow> field option \<Rightarrow> jsstring \<Rightarrow> unit io" where
  "handleItemSuggestion ev uid replyToken location duration conditions =
     seq_io
       (reply ev replyToken
          (TextMessage (itemsAck (interpolate location) (interpolate duration) conditions)))
       (try_catch (handleItemSuggestion_try ev uid location duration conditions)
          (\<lambda>error. pushMessage ev uid itemsError))"

section \<open>The conversation state machine\<close>

definition handleStateMessage :: "env \<Rightarrow> uid \<Rightarrow> token \<Rightarrow> jsstring \<Rightarrow> jsstring \<Rightarrow> unit io" where
  "handleStateMessage ev uid replyToken text state =
     (if state = js ''awaiting_region_camp'' then
        seq_io
          (putStateWithData ev uid (js ''awaiting_date_camp'') [(js ''region'', Some (Text text))])
          (reply ev replyToken (TextMessage datePrompt))
      else if state = js ''awaiting_date_camp'' then
        bind_io (getStateData_key ev uid (js ''region''))
          (\<lambda>campRegion.
             seq_io
               (putStateWithData ev uid (js ''awaiting_conditions_camp'')
                  [(js ''region'', campRegion), (js ''date'', Some (Text text))])
               (reply ev replyToken (TextMessage campConditionsPrompt)))
      else if state = js ''awaiting_conditions_camp'' then
        bind_io (getStateData ev uid)
          (\<lambda>campData.
             seq_io (clearState ev uid)
               (handleCampInfo ev uid replyToken (map_of campData (js ''region''))
                  (map_of campData (js ''date'')) text))
      else if state = js ''awaiting_prefecture_yaychi'' then
        seq_io
          (putStateWithData ev uid (js ''awaiting_conditions_yaychi'')
             [(js ''prefecture'', Some (Text text))])
          (reply ev replyToken (TextMessage yaychiConditionsPrompt))
      else if state = js ''awaiting_conditions_yaychi'' then
        bind_io (getStateData ev uid)
          (\<lambda>yaychiData.
             seq_io (clearState ev uid)
               (handleYaychiInfo ev uid replyToken (map_of yaychiData (js ''prefecture'')) text))
      else if state = js ''awaiting_location_items'' then
        seq_io
          (putStateWithData ev uid (js ''awaiting_duration_items'')
             [(js ''location'', Some (Text text))])
          (reply ev replyToken (TextMessage durationPrompt))
      else if state = js ''awaiting_duration_items'' then
        bind_io (getStateData_key ev uid (js ''location''))
          (\<lambda>itemLocation.
             seq_io
               (putStateWithData ev uid (js ''awaiting_conditions_items'')
                  [(js ''location'', itemLocation), (js ''duration'', Some (Text text))])
               (reply ev replyToken (TextMessage itemConditionsPrompt)))
      else if state = js ''awaiting_conditions_items'' then
        bind_io (getStateData ev uid)
          (\<lambda>itemData.
             seq_io (clearState ev uid)
               (handleItemSuggestion ev uid replyToken (map_of itemData (js ''location''))
                  (map_of itemData (js ''duration'')) text))
      else seq_io (clearState ev uid) (handleGeneralMessage ev replyToken text))"

section \<open>The handler\<close>

text \<open>
  An inbound event: a \<open>follow\<close>, a text message, or anything else (another event type, a
  message that is not text). The user id and the reply token are taken as present.
\<close>

datatype event = Follow uid token | TextEvent uid token jsstring | OtherEvent

text \<open>
  An invocation, after the two steps that belong to the platform: whether it has a
  (non-empty) body, whether the signature header is present and \<open>validateSignature\<close>
  accepts it, and the \<open>events\<close> of the parsed body, absent when the body has no such
  property.
\<close>

record request =
  has_body :: bool
  signature_valid :: bool
  events :: "event list option"

record APIGatewayProxyResult =
  statusCode :: nat
  body :: string

text \<open>The branch of a text message whose user has no state: the menu selection.\<close>

definition handleMenu :: "env \<Rightarrow> uid \<Rightarrow> token \<Rightarrow> jsstring \<Rightarrow> unit io" where
  "handleMenu ev uid replyToken text =
     (if text = campTrigger then
        seq_io (putState ev uid (js ''awaiting_region_camp''))
          (reply ev replyToken (TextMessage regionPrompt))
      else if text = yaychiTrigger then
        seq_io (putState ev uid (js ''awaiting_prefecture_yaychi''))
          (reply ev replyToken (TextMessage prefecturePrompt))
      else if text = itemsTrigger then
        seq_io (putState ev uid (js ''awaiting_location_items''))
          (reply ev replyToken (TextMessage locationPrompt))
      else handleGeneralMessage ev replyToken text)"

text \<open>
  The logic applied to the first event. \<open>!state\<close> holds for an absent state and for the
  empty string.
\<close>

definition handleEvent :: "env \<Rightarrow> event \<Rightarrow> APIGatewayProxyResult io" where
  "handleEvent ev e =
     (case e of
        Follow uid replyToken \<Rightarrow>
          seq_io (saveUserId ev uid)
            (seq_io (reply ev replyToken (TextMessage welcomeText))
               (return_io \<lparr>statusCode = 200, body = ''OK''\<rparr>))
      | TextEvent uid replyToken text \<Rightarrow>
          seq_io (saveUserId ev uid)
            (bind_io (getState ev uid)
               (\<lambda>state.
                  case state of
                    None \<Rightarrow>
                      seq_io (handleMenu ev uid replyToken text)
                        (return_io \<lparr>statusCode = 200, body = ''OK''\<rparr>)
                  | Some s \<Rightarrow>
                      if s = []
                      then seq_io (handleMenu ev uid replyToken text)
                             (return_io \<lparr>statusCode = 200, body = ''OK''\<rparr>)
                      else seq_io (handleStateMessage ev uid replyToken text s)
                             (return_io \<lparr>statusCode = 200, body = ''OK''\<rparr>)))
      | OtherEvent \<Rightarrow> return_io \<lparr>statusCode = 200, body = ''ignored''\<rparr>)"

text \<open>\<open>const [e] = events\<close>: the first event of the batch, and only that one.\<close>

definition handler :: "env \<Rightarrow> request \<Rightarrow> APIGatewayProxyResult io" where
  "handler ev req =
     (if \<not> has_body req then return_io \<lparr>statusCode = 200, body = ''no body''\<rparr>
      else if \<not> signature_valid req then
        return_io \<lparr>statusCode = 401, body = ''signature validation failed''\<rparr>
      else (case (case events req of None \<Rightarrow> [] | Some es \<Rightarrow> es) of
              [] \<Rightarrow> return_io \<lparr>statusCode = 200, body = ''no events''\<rparr>
            | e # _ \<Rightarrow> handleEvent ev e))"

text \<open>
  The echo entry point of \<open>src/handler.ts\<close>, which is not the handler above: it has no
  state and loops over the whole batch. It parses \<open>event.body || ""\<close>, so an absent body
  is a SyntaxError, and it iterates over \<open>events\<close> without a default, so an absent list is
  a TypeError.
\<close>

fun webhook_loop :: "env \<Rightarrow> event list \<Rightarrow> unit io" where
  "webhook_loop ev [] = return_io ()"
| "webhook_loop ev (e # es) =
     (case e of
        TextEvent uid replyToken text \<Rightarrow>
          seq_io (invoke ev (ReplyMessage replyToken (TextMessage text))) (webhook_loop ev es)
      | _ \<Rightarrow> webhook_loop ev es)"

definition webhook :: "env \<Rightarrow> request \<Rightarrow> APIGatewayProxyResult io" where
  "webhook ev req =
     (if \<not> signature_valid req then return_io \<lparr>statusCode = 401, body = ''Unauthorized''\<rparr>
      else if \<not> has_body req then throw_io SyntaxError
      else (case events req of
              None \<Rightarrow> throw_io TypeError
            | Some es \<Rightarrow>
                seq_io (webhook_loop ev es) (return_io \<lparr>statusCode = 200, body = ''OK''\<rparr>)))"

section \<open>Notions used in the statements\<close>

definition colon :: nat where
  "colon = 0x3A"

text \<open>
  The record of a trimmed line as the specification words it: the line is cut at its first
  colon, the name is what precedes it without the numeric prefix, the description is
  everything that follows it.
\<close>

definition claimedItem :: "jsstring \<Rightarrow> ItemInfo option" where
  "claimedItem line =
     (if numbered line \<and> colon \<in> set line
      then Some \<lparr>item_name = trim (stripNumber (takeWhile (\<lambda>c. c \<noteq> colon) line)),
                 item_description = trim (drop 1 (dropWhile (\<lambda>c. c \<noteq> colon) line))\<rparr>
      else None)"

text \<open>
  The record the parser computes for a trimmed line: the description is the second piece
  of \<open>split(':', 2)\<close>, which ends at the second colon of the line when it has one.
\<close>

definition itemOfLine :: "jsstring \<Rightarrow> ItemInfo option" where
  "itemOfLine line =
     (if numbered line \<and> colon \<in> set line
      then Some \<lparr>item_name = trim (stripNumber (takeWhile (\<lambda>c. c \<noteq> colon) line)),
                 item_description =
                   trim (takeWhile (\<lambda>c. c \<noteq> colon)
                           (drop 1 (dropWhile (\<lambda>c. c \<noteq> colon) line)))\<rparr>
      else None)"

text \<open>A small bubble with the three text slots of the bivouac template, for the examples.\<close>

definition textBox :: "jsstring \<Rightarrow> json" where
  "textBox s = JObj [(js ''type'', JStr (js ''text'')), (js ''text'', JStr s)]"

definition box :: "json list \<Rightarrow> json" where
  "box cs = JObj [(js ''type'', JStr (js ''box'')), (js ''contents'', JArr cs [])]"

definition exampleBubble :: "jsstring \<Rightarrow> json" where
  "exampleBubble title =
     JObj [(js ''type'', JStr (js ''bubble'')),
           (js ''body'',
            box [textBox title,
                 box [box [textBox (js ''Spot''), textBox (js ''spot'')],
                      box [textBox (js ''Note''), textBox (js ''note'')]]])]"

text \<open>Two paths part ways at a member: the assignment along one leaves the other untouched.\<close>

fun differ :: "key list \<Rightarrow> key list \<Rightarrow> bool" where
  "differ (p # ps) (q # qs) = (if p = q then differ ps qs else keyName p \<noteq> keyName q)"
| "differ ps qs = False"

fun isObject :: "json \<Rightarrow> bool" where
  "isObject (JObj kvs) = True"
| "isObject (JArr xs ps) = True"
| "isObject v = False"

text \<open>A template of three bubbles, a quiet environment and an empty world, for the examples.\<close>

definition exampleTemplate :: Template where
  "exampleTemplate =
     \<lparr>template_contents = [exampleBubble (js ''1''), exampleBubble (js ''2''), exampleBubble (js ''3'')],
      template_rest = [(js ''type'', JStr (js ''carousel''))]\<rparr>"

definition quietEnv :: env where
  "quietEnv = \<lparr>fails = (\<lambda>n. False), completion = (\<lambda>n. None),
               flexCamp = exampleTemplate, flexYaychi = exampleTemplate\<rparr>"

definition emptyWorld :: world where
  "emptyWorld = \<lparr>users = (\<lambda>u. None), trace = []\<rparr>"

definition textRequest :: "uid \<Rightarrow> token \<Rightarrow> jsstring \<Rightarrow> request" where
  "textRequest uid replyToken text =
     \<lparr>has_body = True, signature_valid = True, events = Some [TextEvent uid replyToken text]\<rparr>"

text \<open>The calls of one turn: what a computation adds to the trace.\<close>

definition turn :: "'a io \<Rightarrow> world \<Rightarrow> (call \<times> bool) list" where
  "turn m w = drop (length (trace w)) (trace (snd (m w)))"

fun is_write :: "call \<Rightarrow> bool" where
  "is_write (PutItem uid item) = True"
| "is_write c = False"

fun is_reply :: "call \<Rightarrow> bool" where
  "is_reply (ReplyMessage replyToken message) = True"
| "is_reply c = False"

text \<open>
  Within a turn no reply precedes a write to the store, and every write that a reply follows
  has completed.
\<close>

definition writes_precede_replies :: "(call \<times> bool) list \<Rightarrow> bool" where
  "writes_precede_replies tr =
     (\<forall>i<length tr. \<forall>j<length tr.
        is_reply (fst (tr ! i)) \<and> is_write (fst (tr ! j)) \<longrightarrow> j < i \<and> snd (tr ! j))"

text \<open>
  Three shapes of a computation, by what it adds to the trace: it never writes to the store;
  it never replies, and has completed every call when it returns; or it is a part of the
  second shape followed by a part of the first.
\<close>

definition sends :: "'a io \<Rightarrow> bool" where
  "sends m = (\<forall>w. \<exists>tr. trace (snd (m w)) = trace w @ tr \<and> (\<forall>e\<in>set tr. \<not> is_write (fst e)))"

definition stores :: "'a io \<Rightarrow> bool" where
  "stores m =
     (\<forall>w. \<exists>tr. trace (snd (m w)) = trace w @ tr \<and> (\<forall>e\<in>set tr. \<not> is_reply (fst e))
        \<and> ((\<exists>x. fst (m w) = Inr x) \<longrightarrow> (\<forall>e\<in>set tr. snd e)))"

definition phased :: "'a io \<Rightarrow> bool" where
  "phased m =
     (\<forall>w. \<exists>pre post. trace (snd (m w)) = trace w @ pre @ post
        \<and> (\<forall>e\<in>set pre. \<not> is_reply (fst e)) \<and> (\<forall>e\<in>set post. \<not> is_write (fst e))
        \<and> (post \<noteq> [] \<longrightarrow> (\<forall>e\<in>set pre. snd e)))"

text \<open>
  The user of the examples, a \<open>follow\<close> invocation, the world after that user has sent the
  camp menu phrase, the item that holds the key only, a collected field, and three
  environments with a failing call: the first generation request after the
  acknowledgment, the acknowledgment itself, every call after the acknowledgment.
\<close>

definition userU :: uid where
  "userU = js ''U''"

definition followRequest :: "uid \<Rightarrow> token \<Rightarrow> request" where
  "followRequest uid replyToken =
     \<lparr>has_body = True, signature_valid = True, events = Some [Follow uid replyToken]\<rparr>"

definition afterTrigger :: world where
  "afterTrigger = snd (handler quietEnv (textRequest userU (js ''T1'') campTrigger) emptyWorld)"

definition noItem :: Item where
  "noItem = \<lparr>item_state = None, item_data = None\<rparr>"

definition tokyo :: "field option" where
  "tokyo = Some (Text (js ''Tokyo''))"




section \<open>The parsers\<close>

lemmas str_defs = js_def trim_def startsWith_def startsWith123_def numbered_def stripNumber_def
  isDigit_def isWhiteSpace_def split_def split_limit_def

lemmas json_defs = textBox_def box_def lookup_def yaychiTitlePath_def yaychiSpotPath_def
  yaychiDescriptionPath_def campTitlePath_def campLinkPath_def

lemma parseResponse_loop_eq:
  "parseResponse_loop ls acc =
     acc @ map (\<lambda>l. \<lparr>camp_name = trim (stripNumber l), homepage_url = None\<rparr>)
             (filter (\<lambda>l. l \<noteq> [] \<and> startsWith123 l) (map trim ls))"
  by (induction ls arbitrary: acc) (simp_all add: Let_def)

lemma split_from_char:
  "split_from [c] cur s =
     (cur @ takeWhile (\<lambda>x. x \<noteq> c) s) #
     (if c \<in> set s then split_from [c] [] (drop 1 (dropWhile (\<lambda>x. x \<noteq> c) s)) else [])"
  by (induction s arbitrary: cur) (auto simp: startsWith_def)

lemma split_limit_colon:
  "split_limit (js '':'') 2 s =
     (if colon \<in> set s
      then [takeWhile (\<lambda>c. c \<noteq> colon) s,
            takeWhile (\<lambda>c. c \<noteq> colon) (drop 1 (dropWhile (\<lambda>c. c \<noteq> colon) s))]
      else [s])"
proof -
  have j: "js '':'' = [colon]" by (simp add: js_def colon_def)
  show ?thesis
  proof (cases "colon \<in> set s")
    case True
    then show ?thesis
      unfolding split_limit_def split_def j
      by (subst split_from_char, simp, subst split_from_char, simp)
  next
    case False
    then have "takeWhile (\<lambda>c. c \<noteq> colon) s = s"
      by (auto simp: takeWhile_eq_all_conv)
    with False show ?thesis
      unfolding split_limit_def split_def j
      by (subst split_from_char) simp
  qed
qed

lemma parseItem_loop_eq:
  "parseItem_loop ls acc = acc @ List.map_filter itemOfLine (map trim ls)"
  by (induction ls arbitrary: acc) (simp_all add: Let_def split_limit_colon itemOfLine_def)

lemma length_map_filter:
  "length (List.map_filter f xs) = length (filter (\<lambda>x. f x \<noteq> None) xs)"
  by (induction xs) (auto split: option.splits)

text \<open>
  C4, as stated: each of the three parsers returns at most 3 records. It fails for the
  CampInfo and the ItemInfo parser: four matching lines give four records.
\<close>

theorem parsers_cap_counterexample:
  "\<not> length (parseResponse (Some (js ''1. a\<newline>2. b\<newline>3. c\<newline>1. d''))) \<le> 3
   \<and> \<not> length (parseItemResponse (js ''1. a:b\<newline>2. c:d\<newline>3. e:f\<newline>4. g:h'')) \<le> 3"
  by (simp add: parseResponse_def parseItemResponse_def str_defs)

text \<open>
  C4, amended: the Yaychi parser returns at most 3 records. The CampInfo parser returns,
  in the order of the input, one record for every line that, once trimmed, is not empty
  and starts with \<open>1.\<close>, \<open>2.\<close> or \<open>3.\<close>; the ItemInfo parser returns one record for every
  line that, once trimmed, is numbered and has a colon; neither has a cap.
\<close>

theorem parsers_record_counts:
  "length (parseYaychiResponse t) \<le> 3
   \<and> parseResponse (Some t) =
       map (\<lambda>l. \<lparr>camp_name = trim (stripNumber l), homepage_url = None\<rparr>)
         (filter (\<lambda>l. l \<noteq> [] \<and> startsWith123 l) (map trim (split (js ''\<newline>'') t)))
   \<and> length (parseItemResponse t) =
       length (filter (\<lambda>l. numbered l \<and> colon \<in> set l) (map trim (split (js ''\<newline>'') t)))"
proof -
  have "length (parseYaychiResponse t) \<le> 3"
    by (simp add: parseYaychiResponse_def split: prod.splits)
  moreover have "parseResponse (Some t) =
       map (\<lambda>l. \<lparr>camp_name = trim (stripNumber l), homepage_url = None\<rparr>)
         (filter (\<lambda>l. l \<noteq> [] \<and> startsWith123 l) (map trim (split (js ''\<newline>'') t)))"
    by (simp add: parseResponse_def parseResponse_loop_eq)
  moreover have "length (parseItemResponse t) =
       length (filter (\<lambda>l. numbered l \<and> colon \<in> set l) (map trim (split (js ''\<newline>'') t)))"
    by (simp add: parseItemResponse_def parseItem_loop_eq length_map_filter itemOfLine_def)
  ultimately show ?thesis by simp
qed

text \<open>
  C5, evaluated on the code: the line \<open>1. Tent: keeps: dry\<close> has the description
  \<open>keeps: dry\<close> after its first colon, and the parser returns \<open>keeps\<close>:
  \<open>split(':', 2)\<close> keeps the first two pieces of the full split and drops the rest. The
  Yaychi parser, which cuts at its label, keeps a description with a colon whole.
\<close>

theorem item_description_truncated:
  "parseItemResponse (js ''1. Tent: keeps: dry'') =
     [\<lparr>item_name = js ''Tent'', item_description = js ''keeps''\<rparr>]
   \<and> claimedItem (trim (js ''1. Tent: keeps: dry'')) =
     Some \<lparr>item_name = js ''Tent'', item_description = js ''keeps: dry''\<rparr>
   \<and> parseYaychiResponse (js ''1. Ridge\<newline>'' @ descriptionLabel @ js '' windy: cold'') =
     [\<lparr>yaychi_name = Some (js ''Ridge''), spot = None, description = Some (js ''windy: cold'')\<rparr>]"
  by (simp add: parseItemResponse_def claimedItem_def colon_def parseYaychiResponse_def
      emptyInfo_def afterLabel_def spotLabel_def descriptionLabel_def str_defs)

text \<open>
  What the parser computes, line by line: a record for every trimmed line that is numbered
  and has a colon, none for a line without a colon.
\<close>

lemma parseItemResponse_lines:
  "parseItemResponse t = List.map_filter itemOfLine (map trim (split (js ''\<newline>'') t))
   \<and> parseItemResponse (js ''1. Tent: keeps you dry'') =
       [\<lparr>item_name = js ''Tent'', item_description = js ''keeps you dry''\<rparr>]
   \<and> (colon \<notin> set line \<longrightarrow> itemOfLine line = None)"
proof -
  have "parseItemResponse t = List.map_filter itemOfLine (map trim (split (js ''\<newline>'') t))"
    by (simp add: parseItemResponse_def parseItem_loop_eq)
  moreover have "parseItemResponse (js ''1. Tent: keeps you dry'') =
       [\<lparr>item_name = js ''Tent'', item_description = js ''keeps you dry''\<rparr>]"
    by (simp add: parseItemResponse_def str_defs)
  moreover have "colon \<notin> set line \<longrightarrow> itemOfLine line = None"
    by (simp add: itemOfLine_def)
  ultimately show ?thesis by simp
qed

text \<open>
  C10: a numbered line with a name and no label line after it gives a record whose
  \<open>spot\<close> and \<open>description\<close> are absent, and the composer then writes \<open>undefined\<close> into the
  two text slots of the bubble.
\<close>

theorem yaychi_record_without_labels:
  "parseYaychiResponse (js ''1. Gotemba'') =
     [\<lparr>yaychi_name = Some (js ''Gotemba''), spot = None, description = None\<rparr>]
   \<and> (case fillYaychi (hd (parseYaychiResponse (js ''1. Gotemba''))) (exampleBubble (js ''name'')) of
        Inl e \<Rightarrow> False
      | Inr b \<Rightarrow>
          getPath (yaychiTitlePath @ [Prop (js ''text'')]) b = Inr (JStr (js ''Gotemba''))
          \<and> getPath (yaychiSpotPath @ [Prop (js ''text'')]) b = Inr JUndefined
          \<and> getPath (yaychiDescriptionPath @ [Prop (js ''text'')]) b = Inr JUndefined)"
proof -
  have p: "parseYaychiResponse (js ''1. Gotemba'') =
     [\<lparr>yaychi_name = Some (js ''Gotemba''), spot = None, description = None\<rparr>]"
    by (simp add: parseYaychiResponse_def emptyInfo_def str_defs)
  show ?thesis
    unfolding p by (simp add: fillYaychi_def exampleBubble_def json_defs js_def)
qed

section \<open>The composers\<close>

lemma forEach_fill_length:
  "forEach_fill fill rs k bs = Inr bs' \<Longrightarrow> length bs' = length bs"
  by (induction rs arbitrary: k bs) (auto split: if_splits sum.splits)

lemma forEach_fill_frame:
  "forEach_fill fill rs k bs = Inr bs' \<Longrightarrow> i < k \<or> k + length rs \<le> i \<Longrightarrow> bs' ! i = bs ! i"
proof (induction rs arbitrary: k bs)
  case Nil
  then show ?case by simp
next
  case (Cons r rs)
  show ?case
  proof (cases "k < length bs")
    case True
    with Cons.prems(1) obtain b where b: "fill r (bs ! k) = Inr b"
      and rest: "forEach_fill fill rs (Suc k) (bs[k := b]) = Inr bs'"
      by (auto split: sum.splits)
    from Cons.prems(2) have "i < Suc k \<or> Suc k + length rs \<le> i" by auto
    from Cons.IH [OF rest this] have "bs' ! i = (bs[k := b]) ! i" .
    moreover from Cons.prems(2) have "i \<noteq> k" by auto
    ultimately show ?thesis by simp
  next
    case False
    with Cons.prems(1) have rest: "forEach_fill fill rs (Suc k) bs = Inr bs'" by simp
    from Cons.prems(2) have "i < Suc k \<or> Suc k + length rs \<le> i" by auto
    from Cons.IH [OF rest this] show ?thesis .
  qed
qed

lemma forEach_fill_filled:
  "forEach_fill fill rs k bs = Inr bs' \<Longrightarrow> i < length rs \<Longrightarrow> k + i < length bs \<Longrightarrow>
     fill (rs ! i) (bs ! (k + i)) = Inr (bs' ! (k + i))"
proof (induction rs arbitrary: k bs i)
  case Nil
  then show ?case by simp
next
  case (Cons r rs)
  from Cons.prems(3) have k: "k < length bs" by simp
  with Cons.prems(1) obtain b where b: "fill r (bs ! k) = Inr b"
    and rest: "forEach_fill fill rs (Suc k) (bs[k := b]) = Inr bs'"
    by (auto split: sum.splits)
  show ?case
  proof (cases i)
    case 0
    have "bs' ! k = (bs[k := b]) ! k"
      using forEach_fill_frame [OF rest, of k] by simp
    with b k 0 show ?thesis by simp
  next
    case (Suc j)
    with Cons.prems have j: "j < length rs" "Suc k + j < length (bs[k := b])" by simp_all
    from Cons.IH [OF rest j] Suc show ?thesis by simp
  qed
qed

lemma forEach_fill_excess:
  "forEach_fill fill rs k bs = forEach_fill fill (take (length bs - k) rs) k bs"
proof (induction rs arbitrary: k bs)
  case Nil
  then show ?case by simp
next
  case (Cons r rs)
  show ?case
  proof (cases "k < length bs")
    case True
    then obtain n where n: "length bs - k = Suc n" "length bs - Suc k = n"
      by (metis Suc_diff_Suc)
    show ?thesis
    proof (cases "fill r (bs ! k)")
      case (Inl e)
      with True n show ?thesis by simp
    next
      case (Inr b)
      with True n Cons.IH [of "Suc k" "bs[k := b]"] show ?thesis by simp
    qed
  next
    case False
    have "forEach_fill fill rs' k' bs = Inr bs" if "length bs \<le> k'" for rs' k'
      using that by (induction rs' arbitrary: k') auto
    with False show ?thesis by simp
  qed
qed

lemma lookup_update_same: "lookup (assoc_update k v kvs) k = v"
  by (induction kvs) (auto simp: lookup_def)

lemma lookup_update_other: "k' \<noteq> k \<Longrightarrow> lookup (assoc_update k v kvs) k' = lookup kvs k'"
  by (induction kvs) (auto simp: lookup_def)

lemma assignAt_isObject: "assignAt ps k x v = Inr v' \<Longrightarrow> isObject v"
proof (induction ps arbitrary: v v')
  case Nil
  then show ?case by (cases v) auto
next
  case (Cons p ps)
  then obtain child child' where c: "getMember p v = Inr child" "assignAt ps k x child = Inr child'"
    by (auto split: sum.splits)
  from Cons.IH [OF c(2)] have "isObject child" .
  with c(1) show ?case by (cases v; cases p) (auto split: if_splits)
qed

lemma getMember_putMember_same:
  "getMember p v = Inr child \<Longrightarrow> isObject child \<Longrightarrow> getMember p (putMember p c v) = Inr c"
  by (cases v; cases p) (auto simp: lookup_update_same split: if_splits)

lemma getMember_putMember_other:
  "getMember q (putMember p c v) = getMember q v" if "keyName q \<noteq> keyName p"
proof (cases v)
  case (JArr xs ps)
  show ?thesis
  proof (cases p)
    case (Index i)
    show ?thesis
    proof (cases q)
      case (Index j)
      with that \<open>p = Index i\<close> have "i \<noteq> j" by auto
      with JArr Index \<open>p = Index i\<close> show ?thesis by simp
    qed (simp add: JArr Index)
  qed (use that JArr in \<open>cases q; auto simp: lookup_update_other\<close>)
qed (use that in \<open>cases p; cases q; auto simp: lookup_update_other\<close>)+

lemma getMember_setProp:
  "setProp k x v = Inr v' \<Longrightarrow> getMember (Prop k) v' = Inr x"
  by (cases v) (auto simp: lookup_update_same)

lemma getMember_setProp_other:
  "setProp k x v = Inr v' \<Longrightarrow> keyName q \<noteq> k \<Longrightarrow> getMember q v' = getMember q v"
  by (cases v; cases q) (auto simp: lookup_update_other)

lemma getPath_assignAt:
  "assignAt ps k x v = Inr v' \<Longrightarrow> getPath (ps @ [Prop k]) v' = Inr x"
proof (induction ps arbitrary: v v')
  case Nil
  then show ?case by (simp add: getMember_setProp)
next
  case (Cons p ps)
  then obtain child child' where c: "getMember p v = Inr child" "assignAt ps k x child = Inr child'"
    and v': "v' = putMember p child' v"
    by (auto split: sum.splits)
  from assignAt_isObject [OF c(2)] have "isObject child" .
  from getMember_putMember_same [OF c(1) this] have "getMember p v' = Inr child'" by (simp add: v')
  with Cons.IH [OF c(2)] show ?case by simp
qed

lemma getPath_assignAt_other:
  "assignAt ps k x v = Inr v' \<Longrightarrow> differ (ps @ [Prop k]) qs \<Longrightarrow> getPath qs v' = getPath qs v"
proof (induction ps arbitrary: v v' qs)
  case Nil
  then obtain q qs' where qs: "qs = q # qs'" by (cases qs) auto
  with Nil.prems(2) have "keyName q \<noteq> k" by (auto split: if_splits)
  from getMember_setProp_other [OF _ this] Nil.prems(1) qs show ?case by simp
next
  case (Cons p ps)
  then obtain child child' where c: "getMember p v = Inr child" "assignAt ps k x child = Inr child'"
    and v': "v' = putMember p child' v"
    by (auto split: sum.splits)
  from Cons.prems(2) obtain q qs' where qs: "qs = q # qs'" by (cases qs) auto
  show ?case
  proof (cases "p = q")
    case True
    with Cons.prems(2) qs have d: "differ (ps @ [Prop k]) qs'" by simp
    from assignAt_isObject [OF c(2)] have "isObject child" .
    from getMember_putMember_same [OF c(1) this] have "getMember p v' = Inr child'" by (simp add: v')
    with Cons.IH [OF c(2) d] c(1) True qs show ?thesis by simp
  next
    case False
    with Cons.prems(2) qs have "keyName q \<noteq> keyName p" by auto
    from getMember_putMember_other [OF this] v' qs show ?thesis by simp
  qed
qed

lemma fillCamp_title:
  assumes "fillCamp camp b = Inr b'"
  shows "getPath (campTitlePath @ [Prop (js ''text'')]) b' = Inr (JStr (camp_name camp))"
proof -
  from assms obtain b1 where b1: "assignAt campTitlePath (js ''text'') (JStr (camp_name camp)) b = Inr b1"
    by (auto simp: fillCamp_def split: sum.splits)
  have t: "getPath (campTitlePath @ [Prop (js ''text'')]) b1 = Inr (JStr (camp_name camp))"
    by (rule getPath_assignAt [OF b1])
  show ?thesis
  proof (cases "b' = b1")
    case True
    with t show ?thesis by simp
  next
    case False
    with assms b1 obtain url where "assignAt campLinkPath (js ''uri'') (JStr url) b1 = Inr b'"
      by (auto simp: fillCamp_def split: option.splits if_splits)
    moreover have "differ (campLinkPath @ [Prop (js ''uri'')]) (campTitlePath @ [Prop (js ''text'')])"
      by (simp add: campLinkPath_def campTitlePath_def js_def)
    ultimately have "getPath (campTitlePath @ [Prop (js ''text'')]) b' =
        getPath (campTitlePath @ [Prop (js ''text'')]) b1"
      by (rule getPath_assignAt_other)
    with t show ?thesis by simp
  qed
qed

lemma decimal01: "decimal 0 \<noteq> decimal 1"
  by (simp add: decimal.simps)

lemma fillYaychi_slots:
  assumes "fillYaychi info b = Inr b'"
  shows "getPath (yaychiTitlePath @ [Prop (js ''text'')]) b' = Inr (toJson (yaychi_name info))
       \<and> getPath (yaychiSpotPath @ [Prop (js ''text'')]) b' = Inr (toJson (spot info))
       \<and> getPath (yaychiDescriptionPath @ [Prop (js ''text'')]) b' = Inr (toJson (description info))"
proof -
  from assms obtain b1 b2 where
    b1: "assignAt yaychiTitlePath (js ''text'') (toJson (yaychi_name info)) b = Inr b1" and
    b2: "assignAt yaychiSpotPath (js ''text'') (toJson (spot info)) b1 = Inr b2" and
    b3: "assignAt yaychiDescriptionPath (js ''text'') (toJson (description info)) b2 = Inr b'"
    by (auto simp: fillYaychi_def split: sum.splits)
  have d1: "differ (yaychiSpotPath @ [Prop (js ''text'')]) (yaychiTitlePath @ [Prop (js ''text'')])"
    and d2: "differ (yaychiDescriptionPath @ [Prop (js ''text'')]) (yaychiTitlePath @ [Prop (js ''text'')])"
    and d3: "differ (yaychiDescriptionPath @ [Prop (js ''text'')]) (yaychiSpotPath @ [Prop (js ''text'')])"
    using decimal01 by (simp_all add: yaychiSpotPath_def yaychiTitlePath_def yaychiDescriptionPath_def)
  have "getPath (yaychiTitlePath @ [Prop (js ''text'')]) b' = getPath (yaychiTitlePath @ [Prop (js ''text'')]) b1"
    using getPath_assignAt_other [OF b3 d2] getPath_assignAt_other [OF b2 d1] by simp
  moreover have "getPath (yaychiSpotPath @ [Prop (js ''text'')]) b' = getPath (yaychiSpotPath @ [Prop (js ''text'')]) b2"
    using getPath_assignAt_other [OF b3 d3] by simp
  ultimately show ?thesis
    using getPath_assignAt [OF b1] getPath_assignAt [OF b2] getPath_assignAt [OF b3] by simp
qed

lemma forEach_fill_result:
  assumes "forEach_fill fill rs 0 bs = Inr bs'"
  shows "length bs' = length bs
    \<and> (\<forall>i<length bs. (i < length rs \<longrightarrow> fill (rs ! i) (bs ! i) = Inr (bs' ! i))
                     \<and> (length rs \<le> i \<longrightarrow> bs' ! i = bs ! i))"
  using forEach_fill_length [OF assms] forEach_fill_frame [OF assms]
    forEach_fill_filled [OF assms] by simp

lemma camp_frame:
  assumes "createCampFlexMessage template campInfo = Inr message"
  shows "template_rest (flex_contents message) = template_rest template
    \<and> length (template_contents (flex_contents message)) = length (template_contents template)
    \<and> (\<forall>i<length (template_contents template).
          (i < length campInfo \<longrightarrow>
             fillCamp (campInfo ! i) (template_contents template ! i) =
               Inr (template_contents (flex_contents message) ! i)
             \<and> getPath (campTitlePath @ [Prop (js ''text'')])
                 (template_contents (flex_contents message) ! i) =
               Inr (JStr (camp_name (campInfo ! i))))
        \<and> (length campInfo \<le> i \<longrightarrow>
             template_contents (flex_contents message) ! i = template_contents template ! i))"
proof -
  from assms obtain bs where
    bs: "forEach_fill fillCamp campInfo 0 (template_contents template) = Inr bs" and
    m: "message = \<lparr>altText = campAltText, flex_contents = template\<lparr>template_contents := bs\<rparr>\<rparr>"
    by (auto simp: createCampFlexMessage_def split: sum.splits)
  from forEach_fill_result [OF bs] have
    len: "length bs = length (template_contents template)" and
    each: "\<And>i. i < length (template_contents template) \<Longrightarrow>
       (i < length campInfo \<longrightarrow> fillCamp (campInfo ! i) (template_contents template ! i) = Inr (bs ! i))
       \<and> (length campInfo \<le> i \<longrightarrow> bs ! i = template_contents template ! i)"
    by simp_all
  have "getPath (campTitlePath @ [Prop (js ''text'')]) (bs ! i) = Inr (JStr (camp_name (campInfo ! i)))"
    if "i < length (template_contents template)" "i < length campInfo" for i
    using each [OF that(1)] that(2) by (simp add: fillCamp_title)
  with len each show ?thesis by (simp add: m)
qed

lemma yaychi_frame:
  assumes "createYaychiFlexMessage template yaychiInfo = Inr message"
  shows "template_rest (flex_contents message) = template_rest template
    \<and> length (template_contents (flex_contents message)) = length (template_contents template)
    \<and> (\<forall>i<length (template_contents template).
          (i < length yaychiInfo \<longrightarrow>
             fillYaychi (yaychiInfo ! i) (template_contents template ! i) =
               Inr (template_contents (flex_contents message) ! i)
             \<and> getPath (yaychiTitlePath @ [Prop (js ''text'')])
                 (template_contents (flex_contents message) ! i) =
               Inr (toJson (yaychi_name (yaychiInfo ! i)))
             \<and> getPath (yaychiSpotPath @ [Prop (js ''text'')])
                 (template_contents (flex_contents message) ! i) =
               Inr (toJson (spot (yaychiInfo ! i)))
             \<and> getPath (yaychiDescriptionPath @ [Prop (js ''text'')])
                 (template_contents (flex_contents message) ! i) =
               Inr (toJson (description (yaychiInfo ! i))))
        \<and> (length yaychiInfo \<le> i \<longrightarrow>
             template_contents (flex_contents message) ! i = template_contents template ! i))"
proof -
  from assms obtain bs where
    bs: "forEach_fill fillYaychi yaychiInfo 0 (template_contents template) = Inr bs" and
    m: "message = \<lparr>altText = yaychiAltText, flex_contents = template\<lparr>template_contents := bs\<rparr>\<rparr>"
    by (auto simp: createYaychiFlexMessage_def split: sum.splits)
  from forEach_fill_result [OF bs] have
    len: "length bs = length (template_contents template)" and
    each: "\<And>i. i < length (template_contents template) \<Longrightarrow>
       (i < length yaychiInfo \<longrightarrow>
          fillYaychi (yaychiInfo ! i) (template_contents template ! i) = Inr (bs ! i))
       \<and> (length yaychiInfo \<le> i \<longrightarrow> bs ! i = template_contents template ! i)"
    by simp_all
  have "getPath (yaychiTitlePath @ [Prop (js ''text'')]) (bs ! i) = Inr (toJson (yaychi_name (yaychiInfo ! i)))
      \<and> getPath (yaychiSpotPath @ [Prop (js ''text'')]) (bs ! i) = Inr (toJson (spot (yaychiInfo ! i)))
      \<and> getPath (yaychiDescriptionPath @ [Prop (js ''text'')]) (bs ! i) =
          Inr (toJson (description (yaychiInfo ! i)))"
    if "i < length (template_contents template)" "i < length yaychiInfo" for i
    using each [OF that(1)] that(2) by (intro fillYaychi_slots) simp
  with len each show ?thesis by (simp add: m)
qed

lemma forEach_fill_excess0:
  "forEach_fill fill rs 0 bs = forEach_fill fill (take (length bs) rs) 0 bs"
  using forEach_fill_excess [of fill rs 0 bs] by simp

text \<open>
  C8: when a composer returns a message, the template keeps its other properties and its
  number of bubbles; every bubble below both the record count and the bubble count is the
  original bubble filled with the fields of the record of the same index, and its text
  slots read back as these fields; every bubble at or beyond the record count is the
  original one; the records beyond the bubble count change nothing.
\<close>

theorem composers_frame:
  "(createCampFlexMessage template campInfo = Inr message \<longrightarrow>
      template_rest (flex_contents message) = template_rest template
    \<and> length (template_contents (flex_contents message)) = length (template_contents template)
    \<and> (\<forall>i<length (template_contents template).
          (i < length campInfo \<longrightarrow>
             fillCamp (campInfo ! i) (template_contents template ! i) =
               Inr (template_contents (flex_contents message) ! i)
             \<and> getPath (campTitlePath @ [Prop (js ''text'')])
                 (template_contents (flex_contents message) ! i) =
               Inr (JStr (camp_name (campInfo ! i))))
        \<and> (length campInfo \<le> i \<longrightarrow>
             template_contents (flex_contents message) ! i = template_contents template ! i)))
   \<and> createCampFlexMessage template campInfo =
       createCampFlexMessage template (take (length (template_contents template)) campInfo)
   \<and> (createYaychiFlexMessage template yaychiInfo = Inr message' \<longrightarrow>
      template_rest (flex_contents message') = template_rest template
    \<and> length (template_contents (flex_contents message')) = length (template_contents template)
    \<and> (\<forall>i<length (template_contents template).
          (i < length yaychiInfo \<longrightarrow>
             fillYaychi (yaychiInfo ! i) (template_contents template ! i) =
               Inr (template_contents (flex_contents message') ! i)
             \<and> getPath (yaychiTitlePath @ [Prop (js ''text'')])
                 (template_contents (flex_contents message') ! i) =
               Inr (toJson (yaychi_name (yaychiInfo ! i)))
             \<and> getPath (yaychiSpotPath @ [Prop (js ''text'')])
                 (template_contents (flex_contents message') ! i) =
               Inr (toJson (spot (yaychiInfo ! i)))
             \<and> getPath (yaychiDescriptionPath @ [Prop (js ''text'')])
                 (template_contents (flex_contents message') ! i) =
               Inr (toJson (description (yaychiInfo ! i))))
        \<and> (length yaychiInfo \<le> i \<longrightarrow>
             template_contents (flex_contents message') ! i = template_contents template ! i)))
   \<and> createYaychiFlexMessage template yaychiInfo =
       createYaychiFlexMessage template (take (length (template_contents template)) yaychiInfo)"
proof -
  have "createCampFlexMessage template campInfo =
       createCampFlexMessage template (take (length (template_contents template)) campInfo)"
    unfolding createCampFlexMessage_def by (subst forEach_fill_excess0) (rule refl)
  moreover have "createYaychiFlexMessage template yaychiInfo =
       createYaychiFlexMessage template (take (length (template_contents template)) yaychiInfo)"
    unfolding createYaychiFlexMessage_def by (subst forEach_fill_excess0) (rule refl)
  ultimately show ?thesis
    using camp_frame [of template campInfo message] yaychi_frame [of template yaychiInfo message']
    by blast
qed

theorem composers_frame_witness:
  "\<exists>message message'.
     createCampFlexMessage exampleTemplate [\<lparr>camp_name = js ''Fumoto'', homepage_url = None\<rparr>] = Inr message
   \<and> createYaychiFlexMessage exampleTemplate
       [\<lparr>yaychi_name = Some (js ''Gotemba''), spot = Some (js ''lake''), description = None\<rparr>] = Inr message'
   \<and> getPath (campTitlePath @ [Prop (js ''text'')]) (template_contents (flex_contents message) ! 0) =
       Inr (JStr (js ''Fumoto''))
   \<and> template_contents (flex_contents message) ! 1 = exampleBubble (js ''2'')
   \<and> template_contents (flex_contents message) ! 2 = exampleBubble (js ''3'')
   \<and> getPath (yaychiSpotPath @ [Prop (js ''text'')]) (template_contents (flex_contents message') ! 0) =
       Inr (JStr (js ''lake''))
   \<and> template_contents (flex_contents message') ! 1 = exampleBubble (js ''2'')
   \<and> template_contents (flex_contents message') ! 2 = exampleBubble (js ''3'')"
proof -
  let ?camps = "[\<lparr>camp_name = js ''Fumoto'', homepage_url = None\<rparr>]"
  let ?infos = "[\<lparr>yaychi_name = Some (js ''Gotemba''), spot = Some (js ''lake''), description = None\<rparr>]"
  have "\<exists>m. createCampFlexMessage exampleTemplate ?camps = Inr m"
    by (simp add: createCampFlexMessage_def exampleTemplate_def fillCamp_def exampleBubble_def
        json_defs js_def)
  then obtain m where m: "createCampFlexMessage exampleTemplate ?camps = Inr m" ..
  have "\<exists>m. createYaychiFlexMessage exampleTemplate ?infos = Inr m"
    by (simp add: createYaychiFlexMessage_def exampleTemplate_def fillYaychi_def exampleBubble_def
        json_defs js_def)
  then obtain m' where m': "createYaychiFlexMessage exampleTemplate ?infos = Inr m'" ..
  have len: "length (template_contents exampleTemplate) = 3"
    and b1: "template_contents exampleTemplate ! 1 = exampleBubble (js ''2'')"
    and b2: "template_contents exampleTemplate ! 2 = exampleBubble (js ''3'')"
    by (simp_all add: exampleTemplate_def)
  from composers_frame [of exampleTemplate ?camps m ?infos m'] m m' have
    c: "\<forall>i<3. (i < 1 \<longrightarrow> getPath (campTitlePath @ [Prop (js ''text'')])
                 (template_contents (flex_contents m) ! i) = Inr (JStr (camp_name (?camps ! i))))
        \<and> (1 \<le> i \<longrightarrow> template_contents (flex_contents m) ! i = template_contents exampleTemplate ! i)"
    and y: "\<forall>i<3. (i < 1 \<longrightarrow> getPath (yaychiSpotPath @ [Prop (js ''text'')])
                 (template_contents (flex_contents m') ! i) = Inr (toJson (spot (?infos ! i))))
        \<and> (1 \<le> i \<longrightarrow> template_contents (flex_contents m') ! i = template_contents exampleTemplate ! i)"
    by (simp_all add: len)
  from c [rule_format, of 0] c [rule_format, of 1] c [rule_format, of 2]
    y [rule_format, of 0] y [rule_format, of 1] y [rule_format, of 2] m m' b1 b2
  show ?thesis by simp
qed

section \<open>The services and the trace\<close>

lemmas io_defs = return_io_def throw_io_def bind_io_def seq_io_def try_catch_def invoke_def
  putItem_def getItem_def chat_def reply_def

lemma putItem_eq:
  "putItem ev uid item w =
     (if fails ev (length (trace w))
      then (Inl ServiceError, w\<lparr>trace := trace w @ [(PutItem uid item, False)]\<rparr>)
      else (Inr (), w\<lparr>trace := trace w @ [(PutItem uid item, True)],
                      users := (users w)(uid \<mapsto> item)\<rparr>))"
  by (simp add: io_defs)

lemma getItem_eq:
  "getItem ev uid w =
     (if fails ev (length (trace w))
      then (Inl ServiceError, w\<lparr>trace := trace w @ [(GetItem uid, False)]\<rparr>)
      else (Inr (users w uid), w\<lparr>trace := trace w @ [(GetItem uid, True)]\<rparr>))"
  by (simp add: io_defs)





lemma sends_return [intro!]: "sends (return_io x)"
  by (simp add: sends_def return_io_def)

lemma sends_throw [intro!]: "sends (throw_io e)"
  by (simp add: sends_def throw_io_def)

lemma sends_invoke [intro]: "\<not> is_write c \<Longrightarrow> sends (invoke ev c)"
  by (simp add: sends_def invoke_def)

lemma sends_chat [intro!]: "sends (chat ev p)"
  by (simp add: sends_def chat_def invoke_def)

lemma sends_reply [intro!]: "sends (reply ev replyToken message)"
  by (simp add: reply_def sends_invoke)

lemma sends_bind [intro!]:
  assumes "sends m" and "\<And>x. sends (f x)"
  shows "sends (bind_io m f)"
  unfolding sends_def
proof
  fix w
  from assms(1) obtain tr where tr: "trace (snd (m w)) = trace w @ tr" "\<forall>e\<in>set tr. \<not> is_write (fst e)"
    unfolding sends_def by blast
  show "\<exists>tr. trace (snd (bind_io m f w)) = trace w @ tr \<and> (\<forall>e\<in>set tr. \<not> is_write (fst e))"
  proof (cases "m w")
    case (Pair r w')
    show ?thesis
    proof (cases r)
      case (Inl e)
      with Pair tr show ?thesis by (auto simp: bind_io_def)
    next
      case (Inr x)
      from assms(2) [of x] obtain tr' where
        tr': "trace (snd (f x w')) = trace w' @ tr'" "\<forall>e\<in>set tr'. \<not> is_write (fst e)"
        unfolding sends_def by blast
      with Pair Inr tr have "trace (snd (bind_io m f w)) = trace w @ (tr @ tr')"
        by (simp add: bind_io_def)
      moreover from tr tr' have "\<forall>e\<in>set (tr @ tr'). \<not> is_write (fst e)" by auto
      ultimately show ?thesis by blast
    qed
  qed
qed

lemma sends_seq [intro!]: "sends m \<Longrightarrow> sends n \<Longrightarrow> sends (seq_io m n)"
  by (simp add: seq_io_def sends_bind)

lemma sends_try_catch [intro!]:
  assumes "sends m" and "\<And>e. sends (h e)"
  shows "sends (try_catch m h)"
  unfolding sends_def
proof
  fix w
  from assms(1) obtain tr where tr: "trace (snd (m w)) = trace w @ tr" "\<forall>e\<in>set tr. \<not> is_write (fst e)"
    unfolding sends_def by blast
  show "\<exists>tr. trace (snd (try_catch m h w)) = trace w @ tr \<and> (\<forall>e\<in>set tr. \<not> is_write (fst e))"
  proof (cases "m w")
    case (Pair r w')
    show ?thesis
    proof (cases r)
      case (Inr x)
      with Pair tr show ?thesis by (auto simp: try_catch_def)
    next
      case (Inl e)
      from assms(2) [of e] obtain tr' where
        tr': "trace (snd (h e w')) = trace w' @ tr'" "\<forall>e\<in>set tr'. \<not> is_write (fst e)"
        unfolding sends_def by blast
      with Pair Inl tr have "trace (snd (try_catch m h w)) = trace w @ (tr @ tr')"
        by (simp add: try_catch_def)
      moreover from tr tr' have "\<forall>e\<in>set (tr @ tr'). \<not> is_write (fst e)" by auto
      ultimately show ?thesis by blast
    qed
  qed
qed

lemma sends_pushEach [intro!]: "sends (pushEach ev uid ms)"
  by (induction ms) (auto intro: sends_invoke)

lemma sends_pushMessage [intro!]: "sends (pushMessage ev uid text)"
  by (simp add: pushMessage_def sends_pushEach)

lemma sends_pushFlexMessage [intro!]: "sends (pushFlexMessage ev uid flexMessage)"
  by (simp add: pushFlexMessage_def sends_invoke)

lemma sends_recommendEach [intro!]: "sends (recommendEach ev uid items)"
  by (induction items) auto

lemma sends_handleGeneralMessage [intro!]: "sends (handleGeneralMessage ev replyToken text)"
  unfolding handleGeneralMessage_def by auto

lemma sends_handleCampInfo [intro!]: "sends (handleCampInfo ev uid replyToken region date conditions)"
  unfolding handleCampInfo_def handleCampInfo_try_def Let_def
  by (auto split: sum.splits)

lemma sends_handleYaychiInfo [intro!]: "sends (handleYaychiInfo ev uid replyToken prefecture conditions)"
  unfolding handleYaychiInfo_def handleYaychiInfo_try_def Let_def
  by (auto split: sum.splits)

lemma sends_handleItemSuggestion [intro!]:
  "sends (handleItemSuggestion ev uid replyToken location duration conditions)"
  unfolding handleItemSuggestion_def handleItemSuggestion_try_def Let_def
  by (auto split: sum.splits)

lemma stores_putItem: "stores (putItem ev uid item)"
  by (simp add: stores_def putItem_eq)

lemma stores_getItem: "stores (getItem ev uid)"
  by (simp add: stores_def getItem_eq)

lemma stores_map:
  assumes "stores m"
  shows "stores (bind_io m (\<lambda>x. return_io (g x)))"
  unfolding stores_def
proof
  fix w
  from assms obtain tr where tr: "trace (snd (m w)) = trace w @ tr" "\<forall>e\<in>set tr. \<not> is_reply (fst e)"
    "(\<exists>x. fst (m w) = Inr x) \<longrightarrow> (\<forall>e\<in>set tr. snd e)"
    unfolding stores_def by blast
  then show "\<exists>tr. trace (snd (bind_io m (\<lambda>x. return_io (g x)) w)) = trace w @ tr
      \<and> (\<forall>e\<in>set tr. \<not> is_reply (fst e))
      \<and> ((\<exists>x. fst (bind_io m (\<lambda>x. return_io (g x)) w) = Inr x) \<longrightarrow> (\<forall>e\<in>set tr. snd e))"
    by (cases "m w"; cases "fst (m w)") (auto simp: bind_io_def return_io_def)
qed

lemma stores_ops:
  "stores (saveUserId ev uid)" "stores (clearState ev uid)" "stores (putState ev uid state)"
  "stores (putStateWithData ev uid state data)" "stores (getState ev uid)"
  "stores (getStateData ev uid)" "stores (getStateData_key ev uid k)"
  by (simp_all add: saveUserId_def clearState_def putState_def putStateWithData_def getState_def
      getStateData_def getStateData_key_def stores_putItem stores_getItem stores_map)

lemma phased_sends: "sends m \<Longrightarrow> phased m"
  unfolding sends_def phased_def
proof
  fix w
  assume "\<forall>w. \<exists>tr. trace (snd (m w)) = trace w @ tr \<and> (\<forall>e\<in>set tr. \<not> is_write (fst e))"
  then obtain tr where "trace (snd (m w)) = trace w @ [] @ tr" "\<forall>e\<in>set tr. \<not> is_write (fst e)"
    by force
  then show "\<exists>pre post. trace (snd (m w)) = trace w @ pre @ post
      \<and> (\<forall>e\<in>set pre. \<not> is_reply (fst e)) \<and> (\<forall>e\<in>set post. \<not> is_write (fst e))
      \<and> (post \<noteq> [] \<longrightarrow> (\<forall>e\<in>set pre. snd e))"
    by (intro exI [of _ "[]"] exI [of _ tr]) simp
qed

lemma phased_bind:
  assumes "stores m" and "\<And>x. phased (f x)"
  shows "phased (bind_io m f)"
  unfolding phased_def
proof
  fix w
  from assms(1) obtain tr where tr: "trace (snd (m w)) = trace w @ tr" "\<forall>e\<in>set tr. \<not> is_reply (fst e)"
    "(\<exists>x. fst (m w) = Inr x) \<longrightarrow> (\<forall>e\<in>set tr. snd e)"
    unfolding stores_def by blast
  show "\<exists>pre post. trace (snd (bind_io m f w)) = trace w @ pre @ post
      \<and> (\<forall>e\<in>set pre. \<not> is_reply (fst e)) \<and> (\<forall>e\<in>set post. \<not> is_write (fst e))
      \<and> (post \<noteq> [] \<longrightarrow> (\<forall>e\<in>set pre. snd e))"
  proof (cases "m w")
    case (Pair r w')
    show ?thesis
    proof (cases r)
      case (Inl e)
      with Pair tr have "trace (snd (bind_io m f w)) = trace w @ tr @ []"
        by (simp add: bind_io_def)
      with tr(2) show ?thesis
        by (intro exI [of _ tr] exI [of _ "[]"]) simp
    next
      case (Inr x)
      from assms(2) [of x] obtain pre post where
        pp: "trace (snd (f x w')) = trace w' @ pre @ post" "\<forall>e\<in>set pre. \<not> is_reply (fst e)"
          "\<forall>e\<in>set post. \<not> is_write (fst e)" "post \<noteq> [] \<longrightarrow> (\<forall>e\<in>set pre. snd e)"
        unfolding phased_def by blast
      from Pair Inr tr pp(1) have "trace (snd (bind_io m f w)) = trace w @ (tr @ pre) @ post"
        by (simp add: bind_io_def)
      moreover from tr(2) pp(2) have "\<forall>e\<in>set (tr @ pre). \<not> is_reply (fst e)" by auto
      moreover from Pair Inr tr(3) pp(4) have "post \<noteq> [] \<longrightarrow> (\<forall>e\<in>set (tr @ pre). snd e)" by auto
      ultimately show ?thesis using pp(3) by blast
    qed
  qed
qed

lemma phased_seq: "stores m \<Longrightarrow> phased n \<Longrightarrow> phased (seq_io m n)"
  by (simp add: seq_io_def phased_bind)

lemma trace_seq_return: "trace (snd (seq_io m (return_io r) w)) = trace (snd (m w))"
  by (cases "m w"; cases "fst (m w)") (auto simp: seq_io_def bind_io_def return_io_def)

lemma phased_seq_return: "phased m \<Longrightarrow> phased (seq_io m (return_io r))"
  by (simp add: phased_def trace_seq_return)

lemma phased_handleMenu: "phased (handleMenu ev uid replyToken text)"
  unfolding handleMenu_def
  by (simp add: phased_seq stores_ops phased_sends sends_reply sends_handleGeneralMessage)

lemma phased_handleStateMessage: "phased (handleStateMessage ev uid replyToken text state)"
  unfolding handleStateMessage_def
  by (simp add: phased_seq phased_bind stores_ops phased_sends sends_reply sends_handleCampInfo
      sends_handleYaychiInfo sends_handleItemSuggestion sends_handleGeneralMessage)

lemma phased_handleEvent: "phased (handleEvent ev (TextEvent uid replyToken text))"
  unfolding handleEvent_def event.case
  by (simp add: phased_seq phased_bind stores_ops phased_seq_return phased_handleMenu
      phased_handleStateMessage split: option.split)

lemma phased_turn:
  assumes "phased m"
  shows "writes_precede_replies (turn m w)"
proof -
  from assms obtain pre post where pp: "trace (snd (m w)) = trace w @ pre @ post"
    "\<forall>e\<in>set pre. \<not> is_reply (fst e)" "\<forall>e\<in>set post. \<not> is_write (fst e)"
    "post \<noteq> [] \<longrightarrow> (\<forall>e\<in>set pre. snd e)"
    unfolding phased_def by blast
  then have t: "turn m w = pre @ post" by (simp add: turn_def)
  show ?thesis
    unfolding writes_precede_replies_def t
  proof (intro allI impI)
    fix i j
    assume i: "i < length (pre @ post)" and j: "j < length (pre @ post)"
      and rw: "is_reply (fst ((pre @ post) ! i)) \<and> is_write (fst ((pre @ post) ! j))"
    have ip: "\<not> i < length pre"
    proof
      assume "i < length pre"
      then have "(pre @ post) ! i \<in> set pre" by (simp add: nth_append)
      with pp(2) rw show False by blast
    qed
    have jp: "j < length pre"
    proof (rule ccontr)
      assume "\<not> j < length pre"
      with j have "(pre @ post) ! j \<in> set post" by (simp add: nth_append)
      with pp(3) rw show False by blast
    qed
    from ip i have "post \<noteq> []" by auto
    with pp(4) jp have "snd ((pre @ post) ! j)" by (simp add: nth_append)
    with ip jp show "j < i \<and> snd ((pre @ post) ! j)" by simp
  qed
qed

section \<open>The handler\<close>

lemma afterTrigger_eq:
  "afterTrigger =
     \<lparr>users = (\<lambda>u. None)(userU \<mapsto> \<lparr>item_state = Some (js ''awaiting_region_camp''), item_data = None\<rparr>),
      trace = [(PutItem userU noItem, True), (GetItem userU, True),
               (PutItem userU \<lparr>item_state = Some (js ''awaiting_region_camp''), item_data = None\<rparr>, True),
               (ReplyMessage (js ''T1'') (TextMessage regionPrompt), True)]\<rparr>"
  by (simp add: afterTrigger_def handler_def handleEvent_def textRequest_def quietEnv_def
      emptyWorld_def saveUserId_def getState_def handleMenu_def putState_def noItem_def
      putItem_eq getItem_eq reply_def invoke_def bind_io_def seq_io_def return_io_def)

lemma handleStateMessage_region:
  assumes "\<not> fails ev (length (trace w))" and "\<not> fails ev (Suc (length (trace w)))"
  shows "handleStateMessage ev uid replyToken text (js ''awaiting_region_camp'') w =
     (Inr (),
      w\<lparr>trace := trace w @
           [(PutItem uid \<lparr>item_state = Some (js ''awaiting_date_camp''),
                          item_data = Some [(js ''region'', Text text)]\<rparr>, True),
            (ReplyMessage replyToken (TextMessage datePrompt), True)],
        users := (users w)(uid \<mapsto> \<lparr>item_state = Some (js ''awaiting_date_camp''),
                                     item_data = Some [(js ''region'', Text text)]\<rparr>)\<rparr>)"
  using assms
  by (simp add: handleStateMessage_def putStateWithData_def putItem_eq reply_def invoke_def
      bind_io_def seq_io_def)

lemma phased_extends: "phased m \<Longrightarrow> \<exists>tr. trace (snd (m w)) = trace w @ tr"
  unfolding phased_def by (metis append_assoc)

lemma turn_after_putItem:
  assumes "\<And>w'. \<exists>tr. trace (snd (k w')) = trace w' @ tr"
  shows "\<exists>rest. turn (seq_io (putItem ev uid item) k) w =
           (PutItem uid item, \<not> fails ev (length (trace w))) # rest"
proof (cases "fails ev (length (trace w))")
  case True
  then show ?thesis
    by (simp add: turn_def seq_io_def bind_io_def putItem_eq)
next
  case False
  let ?w = "w\<lparr>trace := trace w @ [(PutItem uid item, True)], users := (users w)(uid \<mapsto> item)\<rparr>"
  from assms [of ?w] obtain tr where "trace (snd (k ?w)) = trace ?w @ tr" ..
  with False show ?thesis
    by (simp add: turn_def seq_io_def bind_io_def putItem_eq)
qed

lemma text_turn_starts_with_write:
  "\<exists>rest. turn (handleEvent ev (TextEvent uid replyToken text)) w =
     (PutItem uid noItem, \<not> fails ev (length (trace w))) # rest"
  unfolding handleEvent_def event.case saveUserId_def noItem_def
  by (rule turn_after_putItem, rule phased_extends)
     (simp add: phased_bind stores_ops phased_seq_return phased_handleMenu
       phased_handleStateMessage split: option.split)




text \<open>The echo entry point is another function: it answers every text message of the batch.\<close>

lemma webhook_answers_each_text_message:
  "turn (webhook quietEnv
           \<lparr>has_body = True, signature_valid = True,
            events = Some [TextEvent userU (js ''T1'') (js ''a''), OtherEvent,
                           TextEvent userU (js ''T2'') (js ''b'')]\<rparr>) emptyWorld =
     [(ReplyMessage (js ''T1'') (TextMessage (js ''a'')), True),
      (ReplyMessage (js ''T2'') (TextMessage (js ''b'')), True)]"
  by (simp add: turn_def webhook_def quietEnv_def emptyWorld_def invoke_def bind_io_def seq_io_def
      return_io_def)

text \<open>
  C2: on every text message the first call of the handler is the write of the item that
  holds the user id only, before any read of the state. When this write and the read that
  follows complete, the write has replaced the whole item, the read finds no state, and
  the handler continues with the menu branch, whatever the table held before.
\<close>

theorem saveUserId_erases_state:
  "(\<exists>rest. turn (handleEvent ev (TextEvent uid replyToken text)) w =
       (PutItem uid noItem, \<not> fails ev (length (trace w))) # rest)
   \<and> (\<not> fails ev (length (trace w)) \<and> \<not> fails ev (Suc (length (trace w))) \<longrightarrow>
        fst (saveUserId ev uid w) = Inr ()
      \<and> users (snd (saveUserId ev uid w)) uid = Some noItem
      \<and> fst (getState ev uid (snd (saveUserId ev uid w))) = Inr None
      \<and> turn (bind_io (saveUserId ev uid) (\<lambda>_. getState ev uid)) w =
          [(PutItem uid noItem, True), (GetItem uid, True)]
      \<and> handleEvent ev (TextEvent uid replyToken text) w =
          seq_io (handleMenu ev uid replyToken text)
            (return_io \<lparr>statusCode = 200, body = ''OK''\<rparr>)
            (snd (getState ev uid (snd (saveUserId ev uid w)))))"
proof -
  have "\<not> fails ev (length (trace w)) \<and> \<not> fails ev (Suc (length (trace w))) \<longrightarrow>
        fst (saveUserId ev uid w) = Inr ()
      \<and> users (snd (saveUserId ev uid w)) uid = Some noItem
      \<and> fst (getState ev uid (snd (saveUserId ev uid w))) = Inr None
      \<and> turn (bind_io (saveUserId ev uid) (\<lambda>_. getState ev uid)) w =
          [(PutItem uid noItem, True), (GetItem uid, True)]
      \<and> handleEvent ev (TextEvent uid replyToken text) w =
          seq_io (handleMenu ev uid replyToken text)
            (return_io \<lparr>statusCode = 200, body = ''OK''\<rparr>)
            (snd (getState ev uid (snd (saveUserId ev uid w))))"
    by (simp add: saveUserId_def getState_def handleEvent_def putItem_eq getItem_eq bind_io_def
        seq_io_def return_io_def noItem_def turn_def)
  with text_turn_starts_with_write [of ev uid replyToken "text" w] show ?thesis
    by blast
qed

theorem saveUserId_erases_state_witness:
  "\<not> fails quietEnv (length (trace afterTrigger))
   \<and> \<not> fails quietEnv (Suc (length (trace afterTrigger)))
   \<and> users afterTrigger userU =
       Some \<lparr>item_state = Some (js ''awaiting_region_camp''), item_data = None\<rparr>
   \<and> users (snd (saveUserId quietEnv userU afterTrigger)) userU = Some noItem
   \<and> fst (getState quietEnv userU (snd (saveUserId quietEnv userU afterTrigger))) = Inr None"
proof -
  have h: "\<not> fails quietEnv (length (trace afterTrigger))"
    "\<not> fails quietEnv (Suc (length (trace afterTrigger)))"
    by (simp_all add: quietEnv_def)
  from saveUserId_erases_state [of quietEnv userU _ _ afterTrigger] h
  have "users (snd (saveUserId quietEnv userU afterTrigger)) userU = Some noItem"
    and "fst (getState quietEnv userU (snd (saveUserId quietEnv userU afterTrigger))) = Inr None"
    by blast+
  with h show ?thesis
    by (simp add: afterTrigger_eq)
qed

text \<open>
  C1, evaluated on the code: after the camp menu phrase the state \<open>awaiting_region_camp\<close> is
  stored and the region prompt is the reply; on the next message, \<open>Tokyo\<close>, the write of the
  user id erases that state before it is read, so the message takes the general branch:
  the state does not advance, no region is collected and the date prompt is not sent.
\<close>

theorem camp_flow_stalls:
  "turn (handler quietEnv (textRequest userU (js ''T1'') campTrigger)) emptyWorld =
     [(PutItem userU noItem, True), (GetItem userU, True),
      (PutItem userU \<lparr>item_state = Some (js ''awaiting_region_camp''), item_data = None\<rparr>, True),
      (ReplyMessage (js ''T1'') (TextMessage regionPrompt), True)]
   \<and> users afterTrigger userU =
       Some \<lparr>item_state = Some (js ''awaiting_region_camp''), item_data = None\<rparr>
   \<and> turn (handler quietEnv (textRequest userU (js ''T2'') (js ''Tokyo''))) afterTrigger =
       [(PutItem userU noItem, True), (GetItem userU, True),
        (ChatCompletion (GeneralPrompt (js ''Tokyo'')), True),
        (ReplyMessage (js ''T2'') (TextMessage generalFallback), True)]
   \<and> users (snd (handler quietEnv (textRequest userU (js ''T2'') (js ''Tokyo'')) afterTrigger)) userU =
       Some noItem"
proof -
  have first: "turn (handler quietEnv (textRequest userU (js ''T1'') campTrigger)) emptyWorld =
      trace afterTrigger"
    by (simp add: turn_def afterTrigger_def emptyWorld_def)
  have tokyo: "js ''Tokyo'' \<noteq> campTrigger" "js ''Tokyo'' \<noteq> yaychiTrigger"
    "js ''Tokyo'' \<noteq> itemsTrigger"
    by (simp_all add: js_def campTrigger_def yaychiTrigger_def itemsTrigger_def)
  have second: "snd (handler quietEnv (textRequest userU (js ''T2'') (js ''Tokyo'')) afterTrigger) =
      \<lparr>users = (\<lambda>u. None)(userU \<mapsto> noItem),
       trace = trace afterTrigger @
         [(PutItem userU noItem, True), (GetItem userU, True),
          (ChatCompletion (GeneralPrompt (js ''Tokyo'')), True),
          (ReplyMessage (js ''T2'') (TextMessage generalFallback), True)]\<rparr>"
    by (simp add: afterTrigger_eq handler_def handleEvent_def textRequest_def quietEnv_def
        saveUserId_def getState_def handleMenu_def noItem_def tokyo handleGeneralMessage_def
        putItem_eq getItem_eq reply_def invoke_def chat_def try_catch_def bind_io_def seq_io_def
        return_io_def)
  show ?thesis
    unfolding first by (simp add: turn_def second) (simp add: afterTrigger_eq)
qed

text \<open>
  C3, evaluated on the code: a \<open>follow\<close> event of a user whose item holds a state records the
  user id and replies with the welcome text, and the write of the user id erases the state.
\<close>

theorem follow_erases_state:
  "users afterTrigger userU =
     Some \<lparr>item_state = Some (js ''awaiting_region_camp''), item_data = None\<rparr>
   \<and> turn (handler quietEnv (followRequest userU (js ''T3''))) afterTrigger =
       [(PutItem userU noItem, True), (ReplyMessage (js ''T3'') (TextMessage welcomeText), True)]
   \<and> users (snd (handler quietEnv (followRequest userU (js ''T3'')) afterTrigger)) userU =
       Some noItem"
proof -
  have "snd (handler quietEnv (followRequest userU (js ''T3'')) afterTrigger) =
      \<lparr>users = (\<lambda>u. None)(userU \<mapsto> noItem),
       trace = trace afterTrigger @
         [(PutItem userU noItem, True),
          (ReplyMessage (js ''T3'') (TextMessage welcomeText), True)]\<rparr>"
    by (simp add: afterTrigger_eq handler_def handleEvent_def followRequest_def quietEnv_def
        saveUserId_def noItem_def putItem_eq reply_def invoke_def bind_io_def seq_io_def
        return_io_def)
  then show ?thesis
    by (simp add: turn_def) (simp add: afterTrigger_eq)
qed

text \<open>
  C9: in every text-message turn, through the menu branches and every branch of the state
  machine, each write to the store comes before each reply of the turn and has completed.
\<close>

theorem state_write_before_reply:
  "writes_precede_replies (turn (handleEvent ev (TextEvent uid replyToken text)) w)
   \<and> writes_precede_replies (turn (handleMenu ev uid replyToken text) w)
   \<and> writes_precede_replies (turn (handleStateMessage ev uid replyToken text state) w)"
  by (simp add: phased_turn phased_handleEvent phased_handleMenu phased_handleStateMessage)

theorem state_write_before_reply_witness:
  "turn (handleEvent quietEnv (TextEvent userU (js ''T1'') campTrigger)) emptyWorld =
     [(PutItem userU noItem, True), (GetItem userU, True),
      (PutItem userU \<lparr>item_state = Some (js ''awaiting_region_camp''), item_data = None\<rparr>, True),
      (ReplyMessage (js ''T1'') (TextMessage regionPrompt), True)]
   \<and> writes_precede_replies
       [(PutItem userU noItem, True), (GetItem userU, True),
        (PutItem userU \<lparr>item_state = Some (js ''awaiting_region_camp''), item_data = None\<rparr>, True),
        (ReplyMessage (js ''T1'') (TextMessage regionPrompt), True)]"
proof -
  have t: "turn (handleEvent quietEnv (TextEvent userU (js ''T1'') campTrigger)) emptyWorld =
     [(PutItem userU noItem, True), (GetItem userU, True),
      (PutItem userU \<lparr>item_state = Some (js ''awaiting_region_camp''), item_data = None\<rparr>, True),
      (ReplyMessage (js ''T1'') (TextMessage regionPrompt), True)]"
    by (simp add: turn_def handleEvent_def quietEnv_def emptyWorld_def saveUserId_def
        getState_def handleMenu_def putState_def noItem_def putItem_eq getItem_eq reply_def
        invoke_def bind_io_def seq_io_def return_io_def)
  from state_write_before_reply [of quietEnv userU "js ''T1''" campTrigger emptyWorld]
  show ?thesis by (simp add: t)
qed

section \<open>The terminal actions\<close>





end
